theory Spec2Isabelle
  imports Complex_Main
begin

section \<open>Utilities: the chain timer (src/utils/helpers.py)\<close>

text \<open>
  Wall-clock readings (\<open>time.time()\<close>) are modelled as real numbers. The timer stores
  its integer budget and the two optional readings that \<open>__enter__\<close> and \<open>__exit__\<close>
  assign; \<open>None\<close> is the value both fields have after \<open>__init__\<close>.
\<close>

record timer =
  timeout_seconds :: int
  start_time :: "real option"
  end_time :: "real option"

definition Timer_init :: "int \<Rightarrow> timer" where
  "Timer_init secs = \<lparr>timeout_seconds = secs, start_time = None, end_time = None\<rparr>"

definition Timer_enter :: "real \<Rightarrow> timer \<Rightarrow> timer" where
  "Timer_enter now t = t\<lparr>start_time := Some now\<rparr>"

definition Timer_exit :: "real \<Rightarrow> timer \<Rightarrow> timer" where
  "Timer_exit now t = t\<lparr>end_time := Some now\<rparr>"

text \<open>
  \<open>elapsed\<close>: 0.0 for a timer that was never started; otherwise the distance from the
  start to \<open>end_time\<close> when that is truthy (set and not 0.0), else to the current reading.
\<close>

definition elapsed :: "real \<Rightarrow> timer \<Rightarrow> real" where
  "elapsed now t =
     (case start_time t of
        None \<Rightarrow> 0
      | Some s \<Rightarrow>
          (let current = (case end_time t of
                            None \<Rightarrow> now
                          | Some e \<Rightarrow> if e \<noteq> 0 then e else now)
           in current - s))"

text \<open>
  The two queries are written as methods on the object: they return their value together
  with the timer as the call leaves it.
\<close>

definition is_timeout :: "real \<Rightarrow> timer \<Rightarrow> bool \<times> timer" where
  "is_timeout now t = (elapsed now t \<ge> real_of_int (timeout_seconds t), t)"

definition remaining :: "real \<Rightarrow> timer \<Rightarrow> real \<times> timer" where
  "remaining now t = (max 0 (real_of_int (timeout_seconds t) - elapsed now t), t)"

section \<open>Python strings and the two regular expressions of the solver\<close>

text \<open>
  A Python \<open>str\<close> is modelled as a list of characters with code points below 256.
  \<open>is_space\<close> is the whitespace class of \<open>str.strip()\<close>, \<open>str.isspace()\<close> and of \<open>\s\<close> in a
  \<open>str\<close> pattern, restricted to those code points; \<open>is_digit\<close> is \<open>\d\<close> there.
\<close>

definition is_space :: "char \<Rightarrow> bool" where
  "is_space c =
     (let n = (of_char c :: nat)
      in (9 \<le> n \<and> n \<le> 13) \<or> (28 \<le> n \<and> n \<le> 32) \<or> n = 133 \<or> n = 160)"

definition is_digit :: "char \<Rightarrow> bool" where
  "is_digit c = (let n = (of_char c :: nat) in 48 \<le> n \<and> n \<le> 57)"

definition digit_val :: "char \<Rightarrow> nat" where
  "digit_val c = (of_char c :: nat) - 48"

definition startswith :: "string \<Rightarrow> string \<Rightarrow> bool" where
  "startswith s p = (take (length p) s = p)"

definition endswith :: "string \<Rightarrow> string \<Rightarrow> bool" where
  "endswith s x = (length x \<le> length s \<and> drop (length s - length x) s = x)"

text \<open>\<open>str_in sub s\<close> is Python's \<open>sub in s\<close>: \<open>sub\<close> occurs in \<open>s\<close> as a contiguous run.\<close>

fun str_in :: "string \<Rightarrow> string \<Rightarrow> bool" where
  "str_in sub [] = (sub = [])"
| "str_in sub (c # cs) = (startswith (c # cs) sub \<or> str_in sub cs)"

definition strip :: "string \<Rightarrow> string" where
  "strip s = rev (dropWhile is_space (rev (dropWhile is_space s)))"

definition remove_commas :: "string \<Rightarrow> string" where
  "remove_commas s = filter (\<lambda>c. c \<noteq> CHR '','') s"

text \<open>
  \<open>int(s)\<close> in base 10. The whitespace that \<open>int\<close> drops around the number is not that of
  \<open>str.strip()\<close>: of the code points below 256 it is 9 to 13, 32, 0x85 and 0xA0, and not
  the separators 0x1C to 0x1F. One sign is allowed, then decimal digits, where a single
  underscore may stand between two digits. A text with more digits than the
  interpreter's limit (\<open>sys.get_int_max_str_digits()\<close>, 4300 unless configured, 0 for no
  limit; the sign and the underscores do not count, leading zeros do) is refused.
  \<open>None\<close> is the \<open>ValueError\<close>.
\<close>

definition is_int_space :: "char \<Rightarrow> bool" where
  "is_int_space c =
     (let n = (of_char c :: nat)
      in (9 \<le> n \<and> n \<le> 13) \<or> n = 32 \<or> n = 133 \<or> n = 160)"

definition int_strip :: "string \<Rightarrow> string" where
  "int_strip s = rev (dropWhile is_int_space (rev (dropWhile is_int_space s)))"

fun int_body :: "string \<Rightarrow> nat \<Rightarrow> nat option" where
  "int_body [] acc = Some acc"
| "int_body [c] acc = (if is_digit c then Some (acc * 10 + digit_val c) else None)"
| "int_body (c # d # ds) acc =
     (if is_digit c then int_body (d # ds) (acc * 10 + digit_val c)
      else if c = CHR ''_'' \<and> is_digit d then int_body ds (acc * 10 + digit_val d)
      else None)"

definition int_digits :: "string \<Rightarrow> nat option" where
  "int_digits s =
     (case s of
        [] \<Rightarrow> None
      | c # cs \<Rightarrow> if is_digit c then int_body cs (digit_val c) else None)"

definition py_int :: "nat \<Rightarrow> string \<Rightarrow> int option" where
  "py_int max_str_digits s =
     (let t = int_strip s
      in if max_str_digits \<noteq> 0 \<and> max_str_digits < length (filter is_digit t) then None
         else
           (case t of
              [] \<Rightarrow> None
            | c # cs \<Rightarrow>
                if c = CHR ''-'' then map_option (\<lambda>n. - int n) (int_digits cs)
                else if c = CHR ''+'' then map_option int (int_digits cs)
                else map_option int (int_digits (c # cs))))"

text \<open>
  The submit pattern \<open>https?://[^\s<>"]+/submit[^\s<>"]*\<close>. \<open>url_char\<close> is the class
  \<open>[^\s<>"]\<close>. \<open>submit_lang\<close> is the set of strings the pattern denotes.
\<close>

definition url_char :: "char \<Rightarrow> bool" where
  "url_char c = (\<not> is_space c \<and> c \<noteq> CHR ''<'' \<and> c \<noteq> CHR ''>'' \<and> c \<noteq> CHR 0x22)"

definition submit_lang :: "string \<Rightarrow> bool" where
  "submit_lang m =
     (\<exists>scheme a b. m = scheme @ a @ ''/submit'' @ b
        \<and> (scheme = ''http://'' \<or> scheme = ''https://'')
        \<and> a \<noteq> [] \<and> list_all url_char a \<and> list_all url_char b)"

text \<open>
  A match attempt at the head of \<open>s\<close>, as the backtracking matcher runs it: the scheme,
  then the greedy run of class characters; the matcher gives characters back until
  \<open>/submit\<close> follows at least one of them, and the trailing greedy class takes the rest of
  the run again. So the attempt succeeds exactly when \<open>/submit\<close> occurs in the run after
  its first character, and the matched text is the scheme with the whole run.
\<close>

definition scheme_of :: "string \<Rightarrow> string option" where
  "scheme_of s =
     (if startswith s ''https://'' then Some ''https://''
      else if startswith s ''http://'' then Some ''http://''
      else None)"

definition submit_match_here :: "string \<Rightarrow> string option" where
  "submit_match_here s =
     (case scheme_of s of
        None \<Rightarrow> None
      | Some scheme \<Rightarrow>
          (let run = takeWhile url_char (drop (length scheme) s)
           in if str_in ''/submit'' (drop 1 run) then Some (scheme @ run) else None))"

text \<open>\<open>re.search\<close>: the attempt at each position from the left, the first success wins.\<close>

fun re_search_submit :: "string \<Rightarrow> string option" where
  "re_search_submit [] = None"
| "re_search_submit (c # cs) =
     (case submit_match_here (c # cs) of
        Some m \<Rightarrow> Some m
      | None \<Rightarrow> re_search_submit cs)"

text \<open>
  The page pattern \<open>page\s+(\d+)\<close> under \<open>re.IGNORECASE\<close>; the result is \<open>group(1)\<close>, the
  greedy run of digits, of the leftmost match.
\<close>

definition page_word :: "string \<Rightarrow> bool" where
  "page_word s =
     (case s of
        p # a # g # e # _ \<Rightarrow>
          (p = CHR ''p'' \<or> p = CHR ''P'') \<and> (a = CHR ''a'' \<or> a = CHR ''A'')
          \<and> (g = CHR ''g'' \<or> g = CHR ''G'') \<and> (e = CHR ''e'' \<or> e = CHR ''E'')
      | _ \<Rightarrow> False)"

definition page_match_here :: "string \<Rightarrow> string option" where
  "page_match_here s =
     (if page_word s then
        (let r = drop 4 s;
             ds = takeWhile is_digit (dropWhile is_space r)
         in if takeWhile is_space r \<noteq> [] \<and> ds \<noteq> [] then Some ds else None)
      else None)"

fun re_search_page :: "string \<Rightarrow> string option" where
  "re_search_page [] = None"
| "re_search_page (c # cs) =
     (case page_match_here (c # cs) of
        Some ds \<Rightarrow> Some ds
      | None \<Rightarrow> re_search_page cs)"

text \<open>\<open>int(page_match.group(1))\<close> on a run of digits.\<close>

definition digits_to_nat :: "string \<Rightarrow> nat" where
  "digits_to_nat ds = foldl (\<lambda>acc c. acc * 10 + digit_val c) 0 ds"

section \<open>Data model\<close>

text \<open>
  An answer is what a handler returns: the integer or float that \<open>solve_math_problem\<close>
  parsed, or text. Floats are modelled by the real number they denote.
\<close>

datatype answer = AInt int | AFloat real | AStr string

text \<open>The dictionary that \<open>fetch_quiz_page\<close> returns (key \<open>url\<close> is \<open>page_url\<close> here).\<close>

record quiz_data =
  content :: string
  html :: string
  page_url :: string

text \<open>The dictionary that \<open>parse_quiz_task\<close> returns (key \<open>html\<close> is \<open>task_html\<close> here).\<close>

record task_info =
  task_description :: string
  raw_content :: string
  submit_url :: "string option"
  file_urls :: "string list"
  task_html :: string

text \<open>\<open>SubmitResponse\<close> of src/api/models.py.\<close>

record SubmitResponse =
  correct :: bool
  url :: "string option"
  reason :: "string option"

text \<open>The submission payload, keys \<open>email\<close>, \<open>secret\<close>, \<open>url\<close>, \<open>answer\<close>.\<close>

record payload =
  payload_email :: string
  payload_secret :: string
  payload_url :: string
  payload_answer :: answer

record http_response =
  status_code :: int
  body :: string

text \<open>What the solver reads off a parsed document: its text and the \<open>href\<close> of every
  anchor that has one, in document order.\<close>

record soup =
  get_text :: string
  find_all_a_href :: "string list"

text \<open>The two settings of src/config.py that the solver reads, and their defaults.\<close>

record settings =
  settings_timeout_seconds :: int
  max_payload_size :: int

definition default_settings :: settings where
  "default_settings = \<lparr>settings_timeout_seconds = 180, max_payload_size = 1048576\<rparr>"

text \<open>The context dictionaries that \<open>solve_task\<close> builds for the three handlers it calls;
  an absent key is \<open>None\<close>, as \<open>context.get\<close> returns it.\<close>

record pdf_context =
  pdf_path :: "string option"
  page_number :: "int option"

record analysis_context =
  data :: "string option"
  data_type :: "string option"

record general_context =
  ctx_task :: string
  ctx_content :: string
  ctx_files :: "string list"

section \<open>The collaborators\<close>

text \<open>
  Everything outside the repository's own logic is a parameter: the clock, the browser
  session behind \<open>BrowserHandler\<close>, the HTML parser, the chat-completion endpoint, the PDF and
  table readers, the JSON serialiser and the HTTP client. A collaborator with an effect
  takes the world \<open>'w\<close> and returns it changed; a result \<open>None\<close> or \<open>False\<close> of a
  collaborator that can raise stands for the exception. \<open>int_max_str_digits\<close> is the
  interpreter's limit on the digits of a text that \<open>int\<close> converts.
\<close>

record 'w env =
  time_time :: "'w \<Rightarrow> real"
  browser_start :: "'w \<Rightarrow> bool \<times> 'w"
  browser_close :: "'w \<Rightarrow> 'w"
  browser_navigate_to :: "string \<Rightarrow> 'w \<Rightarrow> bool \<times> 'w"
  browser_extract_quiz_instructions :: "'w \<Rightarrow> string option \<times> 'w"
  browser_get_page_content :: "'w \<Rightarrow> string \<times> 'w"
  browser_download_file :: "string \<Rightarrow> string \<Rightarrow> 'w \<Rightarrow> bool \<times> 'w"
  mkdir :: "string \<Rightarrow> 'w \<Rightarrow> bool \<times> 'w"
  BeautifulSoup :: "string \<Rightarrow> soup option"
  chat_completions_create :: "(string \<times> string) list \<Rightarrow> 'w \<Rightarrow> string option \<times> 'w"
  PdfReader :: "string \<Rightarrow> 'w \<Rightarrow> string list option"
  path_exists :: "string \<Rightarrow> 'w \<Rightarrow> bool"
  read_csv_file :: "string \<Rightarrow> 'w \<Rightarrow> string option"
  read_csv_text :: "string \<Rightarrow> string option"
  json_loads_dumps :: "string \<Rightarrow> string option"
  py_float :: "string \<Rightarrow> real option"
  int_max_str_digits :: nat
  str_of_paths :: "string list \<Rightarrow> string"
  json_dumps :: "payload \<Rightarrow> string option"
  httpx_post :: "string \<Rightarrow> payload \<Rightarrow> 'w \<Rightarrow> http_response option \<times> 'w"
  parse_SubmitResponse :: "string \<Rightarrow> SubmitResponse option"

definition nl :: string where
  "nl = [CHR 0x0A]"

definition join :: "string \<Rightarrow> string list \<Rightarrow> string" where
  "join sep xs = concat (case xs of [] \<Rightarrow> [] | y # ys \<Rightarrow> y # map (\<lambda>x. sep @ x) ys)"

text \<open>\<open>xs[i]\<close> for a Python list: a negative index counts from the end, an index out of
  range is the \<open>IndexError\<close>.\<close>

definition py_index :: "'a list \<Rightarrow> int \<Rightarrow> 'a option" where
  "py_index xs i =
     (if 0 \<le> i \<and> i < int (length xs) then Some (xs ! nat i)
      else if i < 0 \<and> - int (length xs) \<le> i then Some (xs ! nat (int (length xs) + i))
      else None)"

section \<open>The language-model client (src/solver/llm_client.py)\<close>

text \<open>The messages that \<open>analyze_text\<close> sends for a prompt and an optional context.\<close>

definition chat_messages :: "string \<Rightarrow> string option \<Rightarrow> (string \<times> string) list" where
  "chat_messages prompt context =
     (case context of
        None \<Rightarrow> [(''user'', prompt)]
      | Some c \<Rightarrow>
          if c \<noteq> [] then
            [(''system'', ''You are a helpful assistant that solves data analysis tasks. Provide concise, accurate answers.''),
             (''user'', ''Context:'' @ nl @ c @ nl @ nl @ ''Task:'' @ nl @ prompt)]
          else [(''user'', prompt)])"

definition analyze_text :: "'w env \<Rightarrow> string \<Rightarrow> string option \<Rightarrow> 'w \<Rightarrow> string option \<times> 'w" where
  "analyze_text env prompt context w =
     chat_completions_create env (chat_messages prompt context) w"

text \<open>The number parsing of \<open>solve_math_problem\<close>, on a truthy reply.\<close>

definition parse_number :: "'w env \<Rightarrow> string \<Rightarrow> answer" where
  "parse_number env response =
     (let response = strip response;
          clean_num = remove_commas response
      in if CHR ''.'' \<in> set clean_num then
           (case py_float env clean_num of
              Some f \<Rightarrow> AFloat f
            | None \<Rightarrow> AStr response)
         else
           (case py_int (int_max_str_digits env) clean_num of
              Some n \<Rightarrow> AInt n
            | None \<Rightarrow> AStr response))"

text \<open>The prompt that \<open>solve_math_problem\<close> builds.\<close>

definition math_prompt :: "string \<Rightarrow> string option \<Rightarrow> string" where
  "math_prompt problem dat =
     (let prompt = ''Solve this problem and provide ONLY the final answer, no explanation:''
                   @ nl @ nl @ ''Problem: '' @ problem @ nl;
          prompt = (case dat of
                      None \<Rightarrow> prompt
                    | Some d \<Rightarrow> if d \<noteq> [] then prompt @ nl @ ''Data:'' @ nl @ d else prompt)
      in prompt @ nl @ nl
           @ ''Provide only the numerical answer or the exact answer requested, nothing else.'')"

definition solve_math_problem ::
  "'w env \<Rightarrow> string \<Rightarrow> string option \<Rightarrow> 'w \<Rightarrow> answer option \<times> 'w" where
  "solve_math_problem env problem dat w =
     (case analyze_text env (math_prompt problem dat) None w of
        (None, w1) \<Rightarrow> (None, w1)
      | (Some response, w1) \<Rightarrow>
          if response \<noteq> [] then (Some (parse_number env response), w1) else (None, w1))"

section \<open>The task handlers (src/solver/task_handlers.py)\<close>

text \<open>
  The text the PDF handler extracts from the pages of a document (each page given by its
  \<open>extract_text()\<close>): the single page \<open>pages[page_num - 1]\<close> when \<open>page_num\<close> is truthy, the
  pages joined by newlines otherwise. \<open>None\<close> is the \<open>IndexError\<close>.
\<close>

definition pdf_extract_text :: "string list \<Rightarrow> int option \<Rightarrow> string option" where
  "pdf_extract_text pages page_num =
     (case page_num of
        None \<Rightarrow> Some (join nl pages)
      | Some n \<Rightarrow> if n \<noteq> 0 then py_index pages (n - 1) else Some (join nl pages))"

definition PDFProcessingHandler_handle ::
  "'w env \<Rightarrow> string \<Rightarrow> pdf_context \<Rightarrow> 'w \<Rightarrow> answer option \<times> 'w" where
  "PDFProcessingHandler_handle env description context w =
     (case pdf_path context of
        None \<Rightarrow> (None, w)
      | Some p \<Rightarrow>
          (case PdfReader env p w of
             None \<Rightarrow> (None, w)
           | Some pages \<Rightarrow>
               (case pdf_extract_text pages (page_number context) of
                  None \<Rightarrow> (None, w)
                | Some text \<Rightarrow>
                    (case analyze_text env description
                            (Some (''PDF Content:'' @ nl @ text)) w of
                       (r, w1) \<Rightarrow> (map_option AStr r, w1)))))"

text \<open>The text form of the data that the data-analysis handler sends on; \<open>None\<close> is an
  exception of the table reader or of the JSON parser.\<close>

definition analysis_data_str :: "'w env \<Rightarrow> analysis_context \<Rightarrow> 'w \<Rightarrow> string option" where
  "analysis_data_str env context w =
     (let dtype = (case data_type context of None \<Rightarrow> ''text'' | Some t \<Rightarrow> t)
      in if dtype = ''csv'' then
           (case data context of
              None \<Rightarrow> None
            | Some d \<Rightarrow>
                if path_exists env d w then read_csv_file env d w else read_csv_text env d)
         else if dtype = ''json'' then
           (case data context of
              None \<Rightarrow> Some ''null''
            | Some d \<Rightarrow> json_loads_dumps env d)
         else Some (case data context of None \<Rightarrow> ''None'' | Some d \<Rightarrow> d))"

definition DataAnalysisHandler_handle ::
  "'w env \<Rightarrow> string \<Rightarrow> analysis_context \<Rightarrow> 'w \<Rightarrow> answer option \<times> 'w" where
  "DataAnalysisHandler_handle env description context w =
     (case analysis_data_str env context w of
        None \<Rightarrow> (None, w)
      | Some data_str \<Rightarrow> solve_math_problem env description (Some data_str) w)"

text \<open>The context string of the general handler: one \<open>key: value\<close> line for every truthy
  entry of the context.\<close>

definition general_context_str :: "'w env \<Rightarrow> general_context \<Rightarrow> string" where
  "general_context_str env context =
     join nl
       ((if ctx_task context \<noteq> [] then [''task: '' @ ctx_task context] else [])
        @ (if ctx_content context \<noteq> [] then [''content: '' @ ctx_content context] else [])
        @ (if ctx_files context \<noteq> []
           then [''files: '' @ str_of_paths env (ctx_files context)] else []))"

definition GeneralTaskHandler_handle ::
  "'w env \<Rightarrow> string \<Rightarrow> general_context \<Rightarrow> 'w \<Rightarrow> answer option \<times> 'w" where
  "GeneralTaskHandler_handle env description context w =
     (let context_str = general_context_str env context
      in case analyze_text env description
                (if context_str \<noteq> [] then Some context_str else None) w of
           (r, w1) \<Rightarrow> (map_option AStr r, w1))"

section \<open>The orchestrator (src/solver/quiz_solver.py)\<close>

definition fetch_quiz_page :: "'w env \<Rightarrow> string \<Rightarrow> 'w \<Rightarrow> quiz_data option \<times> 'w" where
  "fetch_quiz_page env u w =
     (case browser_start env w of
        (False, w1) \<Rightarrow> (None, w1)
      | (True, w1) \<Rightarrow>
          (case browser_navigate_to env u w1 of
             (False, w2) \<Rightarrow> (None, browser_close env w2)
           | (True, w2) \<Rightarrow>
               (case browser_extract_quiz_instructions env w2 of
                  (None, w3) \<Rightarrow> (None, browser_close env w3)
                | (Some c, w3) \<Rightarrow>
                    if c = [] then (None, browser_close env w3)
                    else
                      (case browser_get_page_content env w3 of
                         (full_html, w4) \<Rightarrow>
                           (Some \<lparr>content = c, html = full_html, page_url = u\<rparr>,
                            browser_close env w4)))))"

text \<open>\<open>any(ext in href for ext in ['.pdf', '.csv', '.json', '.xlsx', '.txt'])\<close>.\<close>

definition data_extensions :: "string list" where
  "data_extensions = [''.pdf'', ''.csv'', ''.json'', ''.xlsx'', ''.txt'']"

definition has_data_extension :: "string \<Rightarrow> bool" where
  "has_data_extension href = list_ex (\<lambda>ext. str_in ext href) data_extensions"

definition task_prompt :: string where
  "task_prompt = ''Extract the main question or task from this quiz. Be concise and specific.''"

definition parse_quiz_task :: "'w env \<Rightarrow> quiz_data \<Rightarrow> 'w \<Rightarrow> task_info option \<times> 'w" where
  "parse_quiz_task env qd w =
     (case BeautifulSoup env (content qd) of
        None \<Rightarrow> (None, w)
      | Some sp \<Rightarrow>
          (let text_content = get_text sp;
               found_submit_url = re_search_submit (content qd);
               found_file_urls = filter has_data_extension (find_all_a_href sp)
           in case analyze_text env task_prompt (Some text_content) w of
                (described, w1) \<Rightarrow>
                  (Some \<lparr>task_description =
                            (case described of
                               None \<Rightarrow> text_content
                             | Some d \<Rightarrow> if d \<noteq> [] then d else text_content),
                          raw_content = text_content,
                          submit_url = found_submit_url,
                          file_urls = found_file_urls,
                          task_html = html qd\<rparr>, w1)))"

text \<open>
  \<open>download_file\<close>: the file name is the last \<open>/\<close>-component of the URL up to its first
  \<open>?\<close>; the path is \<open>downloads / filename\<close> (an empty or \<open>.\<close> component adds nothing).
\<close>

definition download_filename :: "string \<Rightarrow> string" where
  "download_filename u =
     takeWhile (\<lambda>c. c \<noteq> CHR ''?'') (rev (takeWhile (\<lambda>c. c \<noteq> CHR ''/'') (rev u)))"

definition download_path :: "string \<Rightarrow> string" where
  "download_path filename =
     (if filename = [] \<or> filename = ''.'' then ''downloads'' else ''downloads/'' @ filename)"

definition download_file :: "'w env \<Rightarrow> string \<Rightarrow> 'w \<Rightarrow> string option \<times> 'w" where
  "download_file env u w =
     (case mkdir env ''downloads'' w of
        (False, w1) \<Rightarrow> (None, w1)
      | (True, w1) \<Rightarrow>
          (let file_path = download_path (download_filename u)
           in case browser_start env w1 of
                (False, w2) \<Rightarrow> (None, w2)
              | (True, w2) \<Rightarrow>
                  (case browser_download_file env u file_path w2 of
                     (success, w3) \<Rightarrow>
                       (if success then Some file_path else None, browser_close env w3))))"

fun download_all :: "'w env \<Rightarrow> string list \<Rightarrow> 'w \<Rightarrow> string list \<times> 'w" where
  "download_all env [] w = ([], w)"
| "download_all env (u # us) w =
     (case download_file env u w of
        (fp, w1) \<Rightarrow>
          (case download_all env us w1 of
             (rest, w2) \<Rightarrow> ((case fp of None \<Rightarrow> rest | Some f \<Rightarrow> f # rest), w2)))"

text \<open>The part of \<open>solve_task\<close> after the downloads: the choice of the handler and of its
  context.\<close>

definition solve_task_with_files ::
  "'w env \<Rightarrow> string \<Rightarrow> string \<Rightarrow> string list \<Rightarrow> 'w \<Rightarrow> answer option \<times> 'w" where
  "solve_task_with_files env description raw downloaded_files w =
     (if downloaded_files \<noteq> [] \<and> list_ex (\<lambda>f. endswith f ''.pdf'') downloaded_files then
        (case find (\<lambda>f. endswith f ''.pdf'') downloaded_files of
           None \<Rightarrow> (None, w)
         | Some pdf_file \<Rightarrow>
             (let page_num = map_option (\<lambda>ds. int (digits_to_nat ds)) (re_search_page raw)
              in PDFProcessingHandler_handle env description
                   \<lparr>pdf_path = Some pdf_file, page_number = page_num\<rparr> w))
      else if downloaded_files \<noteq> []
              \<and> list_ex (\<lambda>f. endswith f ''.csv'' \<or> endswith f ''.json'') downloaded_files then
        (case downloaded_files of
           [] \<Rightarrow> (None, w)
         | data_file # _ \<Rightarrow>
             (let dtype = (if endswith data_file ''.csv'' then ''csv'' else ''json'')
              in DataAnalysisHandler_handle env description
                   \<lparr>data = Some data_file, data_type = Some dtype\<rparr> w))
      else
        GeneralTaskHandler_handle env description
          \<lparr>ctx_task = description, ctx_content = raw, ctx_files = downloaded_files\<rparr> w)"

definition solve_task :: "'w env \<Rightarrow> task_info \<Rightarrow> 'w \<Rightarrow> answer option \<times> 'w" where
  "solve_task env ti w =
     (case download_all env (file_urls ti) w of
        (downloaded_files, w1) \<Rightarrow>
          solve_task_with_files env (task_description ti) (raw_content ti) downloaded_files w1)"

text \<open>\<open>get_payload_size\<close> of src/utils/helpers.py: the UTF-8 length of the serialised
  payload (one byte for a code point below 128, two for the others below 256).\<close>

definition utf8_len :: "string \<Rightarrow> nat" where
  "utf8_len s = sum_list (map (\<lambda>c. if (of_char c :: nat) < 128 then 1 else 2) s)"

definition get_payload_size :: "'w env \<Rightarrow> payload \<Rightarrow> nat option" where
  "get_payload_size env p = map_option utf8_len (json_dumps env p)"

definition submit_answer ::
  "'w env \<Rightarrow> settings \<Rightarrow> string \<Rightarrow> string \<Rightarrow> string \<Rightarrow> string \<Rightarrow> answer \<Rightarrow> 'w
     \<Rightarrow> SubmitResponse option \<times> 'w" where
  "submit_answer env st target email secret quiz_url ans w =
     (let p = \<lparr>payload_email = email, payload_secret = secret,
               payload_url = quiz_url, payload_answer = ans\<rparr>
      in case get_payload_size env p of
           None \<Rightarrow> (None, w)
         | Some payload_size \<Rightarrow>
             if int payload_size > max_payload_size st then (None, w)
             else
               (case httpx_post env target p w of
                  (None, w1) \<Rightarrow> (None, w1)
                | (Some response, w1) \<Rightarrow>
                    if status_code response = 200
                    then (parse_SubmitResponse env (body response), w1)
                    else (None, w1)))"

definition solve_single_quiz ::
  "'w env \<Rightarrow> settings \<Rightarrow> string \<Rightarrow> string \<Rightarrow> string \<Rightarrow> real \<Rightarrow> 'w \<Rightarrow> string option \<times> 'w" where
  "solve_single_quiz env st quiz_url email secret time_remaining w =
     (case fetch_quiz_page env quiz_url w of
        (None, w1) \<Rightarrow> (None, w1)
      | (Some qd, w1) \<Rightarrow>
          (case parse_quiz_task env qd w1 of
             (None, w2) \<Rightarrow> (None, w2)
           | (Some ti, w2) \<Rightarrow>
               (case solve_task env ti w2 of
                  (None, w3) \<Rightarrow> (None, w3)
                | (Some ans, w3) \<Rightarrow>
                    (case submit_url ti of
                       None \<Rightarrow> (None, w3)
                     | Some target \<Rightarrow>
                         if target = [] then (None, w3)
                         else
                           (case submit_answer env st target email secret quiz_url ans w3 of
                              (None, w4) \<Rightarrow> (None, w4)
                            | (Some response, w4) \<Rightarrow> (url response, w4))))))"

text \<open>
  The loop of \<open>solve_quiz_chain\<close>. \<open>solving_log\<close> collects the URL of every
  \<open>Solving quiz #n: url\<close> line, one per iteration begun; \<open>left_by_break\<close> tells whether the loop
  ended at its \<open>break\<close> (after \<open>Quiz chain completed or no more URLs\<close>) or at its head.
  The loop has no bound of its own, so the model takes fuel: \<open>None\<close> means that the fuel
  ran out before the loop ended.
\<close>

record 'w loop_end =
  quiz_count :: nat
  solving_log :: "string list"
  left_by_break :: bool
  world :: 'w

fun solve_quiz_chain_loop ::
  "nat \<Rightarrow> 'w env \<Rightarrow> settings \<Rightarrow> timer \<Rightarrow> string \<Rightarrow> string
     \<Rightarrow> string \<Rightarrow> nat \<Rightarrow> string list \<Rightarrow> 'w \<Rightarrow> 'w loop_end option" where
  "solve_quiz_chain_loop 0 env st tm email secret current_url n lg w = None"
| "solve_quiz_chain_loop (Suc fuel) env st tm email secret current_url n lg w =
     (if current_url \<noteq> [] \<and> \<not> fst (is_timeout (time_time env w) tm) then
        (case solve_single_quiz env st current_url email secret
                (fst (remaining (time_time env w) tm)) w of
           (next_url, w1) \<Rightarrow>
             (case next_url of
                None \<Rightarrow>
                  Some \<lparr>quiz_count = n + 1, solving_log = lg @ [current_url],
                        left_by_break = True, world = w1\<rparr>
              | Some u \<Rightarrow>
                  if u \<noteq> [] then
                    solve_quiz_chain_loop fuel env st tm email secret u (n + 1)
                      (lg @ [current_url]) w1
                  else
                    Some \<lparr>quiz_count = n + 1, solving_log = lg @ [current_url],
                          left_by_break = True, world = w1\<rparr>))
      else
        Some \<lparr>quiz_count = n, solving_log = lg, left_by_break = False, world = w\<rparr>)"

text \<open>The line logged after the loop.\<close>

datatype chain_end = Quiz_chain_timed_out | Successfully_completed nat

definition solve_quiz_chain ::
  "nat \<Rightarrow> 'w env \<Rightarrow> settings \<Rightarrow> string \<Rightarrow> string \<Rightarrow> string \<Rightarrow> 'w
     \<Rightarrow> ('w loop_end \<times> chain_end) option" where
  "solve_quiz_chain fuel env st initial_url email secret w =
     (let tm = Timer_enter (time_time env w) (Timer_init (settings_timeout_seconds st))
      in case solve_quiz_chain_loop fuel env st tm email secret initial_url 0 [] w of
           None \<Rightarrow> None
         | Some r \<Rightarrow>
             Some (r, if fst (is_timeout (time_time env (world r)) tm)
                      then Quiz_chain_timed_out
                      else Successfully_completed (quiz_count r)))"

section \<open>An example environment\<close>

text \<open>
  A small scripted world for the concrete runs below: the world is the clock reading and
  the list of requests made so far. A navigation takes two seconds, a download and a
  submission one second each. Every page shows the same task; the checker answers a
  submission for \<open>https://x/q1\<close> with the next URL \<open>https://x/q2\<close> and any other one with
  an incorrect verdict that names no next URL. The language model always replies \<open>5\<close>;
  \<open>float\<close> accepts the two literals \<open>2.5\<close> and \<open>1e5\<close>; the digit limit of \<open>int\<close> is 4300.
\<close>

definition demo_content :: string where
  "demo_content = ''What is 2+3? Post to https://x/submit now''"

definition demo_post :: "string \<Rightarrow> payload \<Rightarrow> real \<times> string list
    \<Rightarrow> http_response option \<times> (real \<times> string list)" where
  "demo_post target p w =
     (Some \<lparr>status_code = 200,
            body = (if payload_url p = ''https://x/q1'' then ''next'' else ''done'')\<rparr>,
      (fst w + 1, snd w @ [''POST '' @ target]))"

definition demo_verdict :: "string \<Rightarrow> SubmitResponse option" where
  "demo_verdict b =
     (if b = ''next''
      then Some \<lparr>correct = True, url = Some ''https://x/q2'', reason = None\<rparr>
      else Some \<lparr>correct = False, url = None, reason = Some ''too high''\<rparr>)"

definition demo_env :: "(real \<times> string list) env" where
  "demo_env =
     \<lparr>time_time = fst,
      browser_start = (\<lambda>w. (True, w)),
      browser_close = (\<lambda>w. w),
      browser_navigate_to = (\<lambda>u w. (True, (fst w + 2, snd w @ [''GET '' @ u]))),
      browser_extract_quiz_instructions = (\<lambda>w. (Some demo_content, w)),
      browser_get_page_content = (\<lambda>w. (''<html></html>'', w)),
      browser_download_file = (\<lambda>u f w. (True, (fst w + 1, snd w @ [''GET '' @ u]))),
      mkdir = (\<lambda>d w. (True, w)),
      BeautifulSoup = (\<lambda>c. Some \<lparr>get_text = c, find_all_a_href = []\<rparr>),
      chat_completions_create = (\<lambda>messages w. (Some ''5'', w)),
      PdfReader = (\<lambda>f w. Some [''first page'', ''second page'']),
      path_exists = (\<lambda>f w. True),
      read_csv_file = (\<lambda>f w. Some ''n''),
      read_csv_text = (\<lambda>t. None),
      json_loads_dumps = (\<lambda>t. None),
      py_float = (\<lambda>t. if t = ''2.5'' then Some 2.5 else if t = ''1e5'' then Some 100000 else None),
      int_max_str_digits = 4300,
      str_of_paths = (\<lambda>fs. ''[]''),
      json_dumps = (\<lambda>p. Some ''{}''),
      httpx_post = demo_post,
      parse_SubmitResponse = demo_verdict\<rparr>"

text \<open>Variants: a page with three links; a serialiser whose output is one byte over the
  default ceiling; a page that names no submit URL; a language model that replies with
  the text it was sent.\<close>

definition demo_links_env :: "(real \<times> string list) env" where
  "demo_links_env =
     demo_env\<lparr>BeautifulSoup :=
       (\<lambda>c. Some \<lparr>get_text = c,
                   find_all_a_href = [''data.csv?token=1'', ''about.html'', ''report.pdf'']\<rparr>)\<rparr>"

definition demo_big_text :: string where
  "demo_big_text = replicate 1048577 (CHR ''x'')"

definition demo_big_env :: "(real \<times> string list) env" where
  "demo_big_env = demo_env\<lparr>json_dumps := (\<lambda>p. Some demo_big_text)\<rparr>"

definition demo_no_submit_env :: "(real \<times> string list) env" where
  "demo_no_submit_env =
     demo_env\<lparr>browser_extract_quiz_instructions := (\<lambda>w. (Some ''What is 2+3?'', w))\<rparr>"

definition demo_echo_env :: "(real \<times> string list) env" where
  "demo_echo_env =
     demo_env\<lparr>chat_completions_create := (\<lambda>messages w. (Some (snd (last messages)), w))\<rparr>"

text \<open>More variants: an HTTP client that also logs the kind of answer it was handed; a
  page that links one CSV file; a model that replies \<open>1e5\<close>.\<close>

definition demo_answer_tag :: "answer \<Rightarrow> string" where
  "demo_answer_tag a =
     (case a of AInt n \<Rightarrow> ''int'' | AFloat f \<Rightarrow> ''float'' | AStr t \<Rightarrow> ''str '' @ t)"

definition demo_tag_post :: "string \<Rightarrow> payload \<Rightarrow> real \<times> string list
    \<Rightarrow> http_response option \<times> (real \<times> string list)" where
  "demo_tag_post target p w =
     (Some \<lparr>status_code = 200,
            body = (if payload_url p = ''https://x/q1'' then ''next'' else ''done'')\<rparr>,
      (fst w + 1, snd w @ [''POST '' @ target @ '' '' @ demo_answer_tag (payload_answer p)]))"

definition demo_tag_env :: "(real \<times> string list) env" where
  "demo_tag_env = demo_env\<lparr>httpx_post := demo_tag_post\<rparr>"

definition demo_csv_env :: "(real \<times> string list) env" where
  "demo_csv_env =
     demo_tag_env\<lparr>BeautifulSoup :=
       (\<lambda>c. Some \<lparr>get_text = c, find_all_a_href = [''https://x/data.csv'']\<rparr>)\<rparr>"

definition demo_1e5_env :: "(real \<times> string list) env" where
  "demo_1e5_env = demo_csv_env\<lparr>chat_completions_create := (\<lambda>messages w. (Some ''1e5'', w))\<rparr>"

section \<open>Facts about the string functions and the submit pattern\<close>

lemma startswith_iff: "startswith s p \<longleftrightarrow> (\<exists>post. s = p @ post)"
  unfolding startswith_def
  by (metis append_eq_conv_conj append_take_drop_id)

lemma str_in_iff: "str_in sub s \<longleftrightarrow> (\<exists>pre post. s = pre @ sub @ post)"
proof (induction s)
  case Nil
  show ?case by simp
next
  case (Cons c cs)
  have "(\<exists>pre post. c # cs = pre @ sub @ post)
        \<longleftrightarrow> (\<exists>post. c # cs = sub @ post) \<or> (\<exists>pre post. cs = pre @ sub @ post)"
  proof
    assume "\<exists>pre post. c # cs = pre @ sub @ post"
    then obtain pre post where e: "c # cs = pre @ sub @ post" by blast
    show "(\<exists>post. c # cs = sub @ post) \<or> (\<exists>pre post. cs = pre @ sub @ post)"
    proof (cases pre)
      case Nil
      with e show ?thesis by auto
    next
      case (Cons x xs)
      with e have "cs = xs @ sub @ post" by simp
      then show ?thesis by blast
    qed
  next
    assume "(\<exists>post. c # cs = sub @ post) \<or> (\<exists>pre post. cs = pre @ sub @ post)"
    then show "\<exists>pre post. c # cs = pre @ sub @ post"
    proof
      assume "\<exists>post. c # cs = sub @ post"
      then obtain post where "c # cs = [] @ sub @ post" by auto
      then show ?thesis by blast
    next
      assume "\<exists>pre post. cs = pre @ sub @ post"
      then obtain pre post where "cs = pre @ sub @ post" by blast
      then have "c # cs = (c # pre) @ sub @ post" by simp
      then show ?thesis by blast
    qed
  qed
  with Cons show ?case by (simp add: startswith_iff)
qed

lemma endswith_iff: "endswith s x \<longleftrightarrow> (\<exists>pre. s = pre @ x)"
proof
  assume "endswith s x"
  then have "s = take (length s - length x) s @ x"
    by (metis append_take_drop_id endswith_def)
  then show "\<exists>pre. s = pre @ x" ..
next
  assume "\<exists>pre. s = pre @ x"
  then show "endswith s x" by (auto simp: endswith_def)
qed

lemma url_char_submit: "list_all url_char ''/submit''"
  by (simp add: url_char_def is_space_def)

lemma scheme_of_Some:
  "scheme_of s = Some sc \<Longrightarrow> (sc = ''http://'' \<or> sc = ''https://'') \<and> (\<exists>r. s = sc @ r)"
  by (auto simp: scheme_of_def startswith_iff split: if_splits)

lemma scheme_of_http: "scheme_of (''http://'' @ r) = Some ''http://''"
  by (simp add: scheme_of_def startswith_def)

lemma scheme_of_https: "scheme_of (''https://'' @ r) = Some ''https://''"
  by (simp add: scheme_of_def startswith_def)

text \<open>An attempt that succeeds yields a string of the pattern's language, at the head.\<close>

lemma submit_match_here_Some:
  assumes "submit_match_here s = Some m"
  shows "submit_lang m \<and> (\<exists>post. s = m @ post)"
proof -
  from assms obtain sc where sc: "scheme_of s = Some sc"
    by (auto simp: submit_match_here_def split: option.splits)
  define run where "run = takeWhile url_char (drop (length sc) s)"
  from assms sc have m: "m = sc @ run" and occ: "str_in ''/submit'' (drop 1 run)"
    by (auto simp: submit_match_here_def run_def Let_def split: if_splits)
  from scheme_of_Some [OF sc] obtain r
    where sch: "sc = ''http://'' \<or> sc = ''https://''" and s: "s = sc @ r"
    by blast
  have run_r: "run = takeWhile url_char r" using s by (simp add: run_def)
  from occ obtain x y where d: "drop 1 run = x @ ''/submit'' @ y"
    by (auto simp: str_in_iff)
  then have "run \<noteq> []" by auto
  then obtain c where run: "run = (c # x) @ ''/submit'' @ y"
    using d by (cases run) auto
  have all: "list_all url_char run"
    unfolding run_r by (simp add: list_all_iff) (meson set_takeWhileD)
  have "list_all url_char (c # x)" "list_all url_char y"
    using all unfolding run by simp_all
  then have "submit_lang m"
    unfolding submit_lang_def m run using sch by blast
  moreover have "s = m @ dropWhile url_char r"
    unfolding m s run_r by simp
  ultimately show ?thesis by blast
qed

text \<open>Whenever some string of the language stands at the head, the attempt succeeds.\<close>

lemma submit_match_here_complete:
  assumes "submit_lang m" and "s = m @ post"
  shows "submit_match_here s \<noteq> None"
proof -
  from assms(1) obtain sc a b where m: "m = sc @ a @ ''/submit'' @ b"
    and sch: "sc = ''http://'' \<or> sc = ''https://''" and a: "a \<noteq> []"
    and ua: "list_all url_char a" and ub: "list_all url_char b"
    unfolding submit_lang_def by blast
  have s: "s = sc @ (a @ ''/submit'' @ b @ post)" using assms(2) m by simp
  have sc: "scheme_of s = Some sc"
    using sch s scheme_of_http scheme_of_https by metis
  have "takeWhile url_char ((a @ ''/submit'' @ b) @ post)
        = (a @ ''/submit'' @ b) @ takeWhile url_char post"
    apply (rule takeWhile_append2)
    using ua ub url_char_submit by (auto simp: list_all_iff)
  then have run: "takeWhile url_char (drop (length sc) s)
                  = a @ ''/submit'' @ b @ takeWhile url_char post"
    using s by simp
  have "drop 1 (a @ ''/submit'' @ b @ takeWhile url_char post)
        = tl a @ ''/submit'' @ (b @ takeWhile url_char post)"
    using a by (cases a) auto
  then have "str_in ''/submit'' (drop 1 (takeWhile url_char (drop (length sc) s)))"
    unfolding run str_in_iff by blast
  then show ?thesis
    using sc by (simp add: submit_match_here_def Let_def)
qed

lemma submit_lang_nonempty: "submit_lang m \<Longrightarrow> m \<noteq> []"
  by (auto simp: submit_lang_def)

lemma re_search_submit_Some:
  "re_search_submit s = Some m \<Longrightarrow>
     \<exists>pre post. s = pre @ m @ post \<and> submit_lang m
        \<and> (\<forall>pre' m' post'. s = pre' @ m' @ post' \<and> submit_lang m'
              \<longrightarrow> length pre \<le> length pre')"
proof (induction s)
  case Nil
  then show ?case by simp
next
  case (Cons c cs)
  show ?case
  proof (cases "submit_match_here (c # cs)")
    case (Some m0)
    with Cons.prems have "m0 = m" by simp
    with Some submit_match_here_Some [of "c # cs" m]
    obtain post where "c # cs = [] @ m @ post" "submit_lang m" by auto
    then show ?thesis by (metis list.size(3) le0)
  next
    case None
    with Cons.prems have "re_search_submit cs = Some m" by simp
    from Cons.IH [OF this] obtain pre post
      where cs: "cs = pre @ m @ post" and lang: "submit_lang m"
        and least: "\<forall>pre' m' post'. cs = pre' @ m' @ post' \<and> submit_lang m'
                      \<longrightarrow> length pre \<le> length pre'"
      by blast
    have "\<forall>pre' m' post'. c # cs = pre' @ m' @ post' \<and> submit_lang m'
            \<longrightarrow> length (c # pre) \<le> length pre'"
    proof (intro allI impI)
      fix pre' m' post'
      assume h: "c # cs = pre' @ m' @ post' \<and> submit_lang m'"
      show "length (c # pre) \<le> length pre'"
      proof (cases pre')
        case Nil
        with h submit_match_here_complete [of m' "c # cs" post'] None show ?thesis by simp
      next
        case (Cons x xs)
        with h have "cs = xs @ m' @ post'" by simp
        with least h have "length pre \<le> length xs" by blast
        with Cons show ?thesis by simp
      qed
    qed
    moreover have "c # cs = (c # pre) @ m @ post" using cs by simp
    ultimately show ?thesis using lang by blast
  qed
qed

lemma re_search_submit_None:
  "re_search_submit s = None
     \<longleftrightarrow> \<not> (\<exists>pre m post. s = pre @ m @ post \<and> submit_lang m)"
proof (induction s)
  case Nil
  then show ?case using submit_lang_nonempty by auto
next
  case (Cons c cs)
  show ?case
  proof (cases "submit_match_here (c # cs)")
    case (Some m0)
    from submit_match_here_Some [OF Some]
    obtain post where "c # cs = [] @ m0 @ post" "submit_lang m0" by auto
    then have "\<exists>pre m post. c # cs = pre @ m @ post \<and> submit_lang m" by blast
    with Some show ?thesis by simp
  next
    case None
    have "(\<exists>pre m post. c # cs = pre @ m @ post \<and> submit_lang m)
          \<longleftrightarrow> (\<exists>pre m post. cs = pre @ m @ post \<and> submit_lang m)"
    proof
      assume "\<exists>pre m post. c # cs = pre @ m @ post \<and> submit_lang m"
      then obtain pre m post where h: "c # cs = pre @ m @ post" "submit_lang m" by blast
      show "\<exists>pre m post. cs = pre @ m @ post \<and> submit_lang m"
      proof (cases pre)
        case Nil
        with h submit_match_here_complete [of m "c # cs" post] None show ?thesis by simp
      next
        case (Cons x xs)
        with h have "cs = xs @ m @ post" by simp
        with h show ?thesis by blast
      qed
    next
      assume "\<exists>pre m post. cs = pre @ m @ post \<and> submit_lang m"
      then obtain pre m post where "cs = pre @ m @ post" "submit_lang m" by blast
      then have "c # cs = (c # pre) @ m @ post \<and> submit_lang m" by simp
      then show "\<exists>pre m post. c # cs = pre @ m @ post \<and> submit_lang m" by blast
    qed
    with None Cons.IH show ?thesis by simp
  qed
qed

section \<open>Runs in the example environment\<close>

lemma demo_fields:
  "time_time demo_env = fst"
  "browser_start demo_env = (\<lambda>w. (True, w))"
  "browser_close demo_env = (\<lambda>w. w)"
  "browser_navigate_to demo_env = (\<lambda>u w. (True, (fst w + 2, snd w @ [''GET '' @ u])))"
  "browser_extract_quiz_instructions demo_env = (\<lambda>w. (Some demo_content, w))"
  "browser_get_page_content demo_env = (\<lambda>w. (''<html></html>'', w))"
  "browser_download_file demo_env = (\<lambda>u f w. (True, (fst w + 1, snd w @ [''GET '' @ u])))"
  "mkdir demo_env = (\<lambda>d w. (True, w))"
  "BeautifulSoup demo_env = (\<lambda>c. Some \<lparr>get_text = c, find_all_a_href = []\<rparr>)"
  "chat_completions_create demo_env = (\<lambda>messages w. (Some ''5'', w))"
  "PdfReader demo_env = (\<lambda>f w. Some [''first page'', ''second page''])"
  "path_exists demo_env = (\<lambda>f w. True)"
  "read_csv_file demo_env = (\<lambda>f w. Some ''n'')"
  "json_loads_dumps demo_env = (\<lambda>t. None)"
  "py_float demo_env
     = (\<lambda>t. if t = ''2.5'' then Some 2.5 else if t = ''1e5'' then Some 100000 else None)"
  "int_max_str_digits demo_env = 4300"
  "json_dumps demo_env = (\<lambda>p. Some ''{}'')"
  "httpx_post demo_env = demo_post"
  "parse_SubmitResponse demo_env = demo_verdict"
  by (simp_all add: demo_env_def)

lemma demo_fetch:
  "fetch_quiz_page demo_env u w
     = (Some \<lparr>content = demo_content, html = ''<html></html>'', page_url = u\<rparr>,
        (fst w + 2, snd w @ [''GET '' @ u]))"
  by (simp add: fetch_quiz_page_def demo_fields demo_content_def)

lemma demo_search: "re_search_submit demo_content = Some ''https://x/submit''"
  by (simp add: demo_content_def submit_match_here_def scheme_of_def startswith_def
        url_char_def is_space_def)

lemma demo_analyze: "analyze_text demo_env p c w = (Some ''5'', w)"
  by (simp add: analyze_text_def demo_fields)

lemma demo_parse:
  "parse_quiz_task demo_env \<lparr>content = demo_content, html = h, page_url = u\<rparr> w
     = (Some \<lparr>task_description = ''5'', raw_content = demo_content,
              submit_url = Some ''https://x/submit'', file_urls = [], task_html = h\<rparr>, w)"
  by (simp add: parse_quiz_task_def demo_analyze demo_search demo_fields Let_def)

lemma demo_general:
  "GeneralTaskHandler_handle demo_env d c w = (Some (AStr ''5''), w)"
  by (simp add: GeneralTaskHandler_handle_def demo_analyze Let_def)

lemma demo_solve:
  "solve_task demo_env \<lparr>task_description = d, raw_content = r,
              submit_url = su, file_urls = [], task_html = h\<rparr> w = (Some (AStr ''5''), w)"
  by (simp add: solve_task_def solve_task_with_files_def demo_general)

lemma demo_submit:
  "2 \<le> max_payload_size st \<Longrightarrow>
   submit_answer demo_env st target e s q a w
     = (demo_verdict (if q = ''https://x/q1'' then ''next'' else ''done''),
        (fst w + 1, snd w @ [''POST '' @ target]))"
  by (simp add: submit_answer_def get_payload_size_def utf8_len_def demo_fields
        demo_post_def Let_def)

lemma demo_single:
  "2 \<le> max_payload_size st \<Longrightarrow>
   solve_single_quiz demo_env st u e s r w
     = ((if u = ''https://x/q1'' then Some ''https://x/q2'' else None),
        (fst w + 3, snd w @ [''GET '' @ u, ''POST https://x/submit'']))"
  by (simp add: solve_single_quiz_def demo_fetch demo_parse demo_solve demo_submit
        demo_verdict_def)

section \<open>Properties of the timer\<close>

lemma elapsed_mono:
  assumes "now1 \<le> now2"
  shows "elapsed now1 t \<le> elapsed now2 t"
  using assms by (simp add: elapsed_def Let_def split: option.splits)

text \<open>
  Claim C8. For every timer, \<open>remaining()\<close> is \<open>max(0, timeout_seconds - elapsed)\<close> and so is
  never negative; it does not increase as the wall clock advances; \<open>is_timeout()\<close> holds
  exactly when \<open>remaining()\<close> is zero; and neither call changes the timer.
\<close>

theorem timer_remaining_contract:
  "fst (remaining now t) = max 0 (real_of_int (timeout_seconds t) - elapsed now t)
   \<and> 0 \<le> fst (remaining now t)
   \<and> (now \<le> now' \<longrightarrow> fst (remaining now' t) \<le> fst (remaining now t))
   \<and> (fst (is_timeout now t) \<longleftrightarrow> fst (remaining now t) = 0)
   \<and> snd (remaining now t) = t
   \<and> snd (is_timeout now t) = t"
proof -
  have mono: "now \<le> now' \<longrightarrow> fst (remaining now' t) \<le> fst (remaining now t)"
  proof
    assume "now \<le> now'"
    then have "elapsed now t \<le> elapsed now' t" by (rule elapsed_mono)
    then show "fst (remaining now' t) \<le> fst (remaining now t)"
      by (simp add: remaining_def)
  qed
  have zero: "fst (is_timeout now t) \<longleftrightarrow> fst (remaining now t) = 0"
    by (auto simp: is_timeout_def remaining_def max_def)
  show ?thesis
    using mono zero by (simp add: remaining_def is_timeout_def)
qed

theorem timer_remaining_contract_witness:
  "(10::real) \<le> 12
   \<and> fst (remaining 12 (Timer_enter 5 (Timer_init 10)))
       \<le> fst (remaining 10 (Timer_enter 5 (Timer_init 10)))
   \<and> fst (remaining 10 (Timer_enter 5 (Timer_init 10))) = 5
   \<and> fst (remaining 12 (Timer_enter 5 (Timer_init 10))) = 3
   \<and> \<not> fst (is_timeout 12 (Timer_enter 5 (Timer_init 10)))
   \<and> fst (is_timeout 15 (Timer_enter 5 (Timer_init 10)))
   \<and> fst (remaining 15 (Timer_enter 5 (Timer_init 10))) = 0"
  using timer_remaining_contract [of 10 "Timer_enter 5 (Timer_init 10)" 12]
  by (simp add: remaining_def is_timeout_def elapsed_def Timer_enter_def Timer_init_def)

section \<open>The payload guard of \<open>submit_answer\<close>\<close>

lemma utf8_len_replicate:
  "utf8_len (replicate n c) = n * (if (of_char c :: nat) < 128 then 1 else 2)"
  by (simp add: utf8_len_def sum_list_replicate)

text \<open>
  Claim C3. When the serialised payload is larger in bytes than \<open>max_payload_size\<close>,
  \<open>submit_answer\<close> returns \<open>None\<close> and leaves the world as it found it: no collaborator
  with an effect has run. The second part says the same in another way: whatever the
  HTTP client would do, the result is the same, so the client is not called. The
  default ceiling is 1048576 (\<open>default_settings\<close>); the example run is at that ceiling.
\<close>

theorem oversized_payload_is_not_posted:
  assumes "get_payload_size env \<lparr>payload_email = email, payload_secret = secret,
              payload_url = quiz_url, payload_answer = ans\<rparr> = Some n"
      and "int n > max_payload_size st"
  shows "submit_answer env st target email secret quiz_url ans w = (None, w)
         \<and> (\<forall>post. submit_answer (env\<lparr>httpx_post := post\<rparr>) st target email secret quiz_url ans w
                     = (None, w))"
proof -
  have same: "get_payload_size (env\<lparr>httpx_post := post\<rparr>) p = get_payload_size env p" for post p
    by (simp add: get_payload_size_def)
  show ?thesis
    using assms unfolding submit_answer_def Let_def same by simp
qed

theorem oversized_payload_is_not_posted_witness:
  "get_payload_size demo_big_env \<lparr>payload_email = ''a@b.c'', payload_secret = ''s'',
       payload_url = ''https://x/q1'', payload_answer = AInt 5\<rparr> = Some 1048577
   \<and> int 1048577 > max_payload_size default_settings
   \<and> submit_answer demo_big_env default_settings ''https://x/submit'' ''a@b.c'' ''s''
        ''https://x/q1'' (AInt 5) (0, []) = (None, (0, []))"
proof -
  have "utf8_len demo_big_text = 1048577"
    by (simp only: demo_big_text_def utf8_len_replicate) simp
  then have a: "get_payload_size demo_big_env \<lparr>payload_email = ''a@b.c'', payload_secret = ''s'',
       payload_url = ''https://x/q1'', payload_answer = AInt 5\<rparr> = Some 1048577"
    by (simp add: get_payload_size_def demo_big_env_def)
  have b: "int 1048577 > max_payload_size default_settings"
    by (simp add: default_settings_def)
  from oversized_payload_is_not_posted [OF a b] show ?thesis using a b by blast
qed

section \<open>The file links of \<open>parse_quiz_task\<close>\<close>

lemma has_data_extension_iff:
  "has_data_extension href \<longleftrightarrow>
     (\<exists>ext pre post. ext \<in> set data_extensions \<and> href = pre @ ext @ post)"
proof
  assume "has_data_extension href"
  then obtain ext where e: "ext \<in> set data_extensions" and "str_in ext href"
    unfolding has_data_extension_def list_ex_iff by blast
  then obtain pre post where "href = pre @ ext @ post"
    using str_in_iff by blast
  with e show "\<exists>ext pre post. ext \<in> set data_extensions \<and> href = pre @ ext @ post"
    by blast
next
  assume "\<exists>ext pre post. ext \<in> set data_extensions \<and> href = pre @ ext @ post"
  then obtain ext pre post where e: "ext \<in> set data_extensions" and "href = pre @ ext @ post"
    by blast
  then have "str_in ext href" using str_in_iff by blast
  with e show "has_data_extension href"
    unfolding has_data_extension_def list_ex_iff by blast
qed

lemma demo_links_parse:
  "parse_quiz_task demo_links_env \<lparr>content = demo_content, html = h, page_url = u\<rparr> w
     = (Some \<lparr>task_description = ''5'', raw_content = demo_content,
              submit_url = Some ''https://x/submit'',
              file_urls = [''data.csv?token=1'', ''report.pdf''], task_html = h\<rparr>, w)"
  by (simp add: parse_quiz_task_def demo_links_env_def analyze_text_def demo_fields demo_search
        has_data_extension_def data_extensions_def startswith_def Let_def)

text \<open>
  Claim C5, as the code has it. The file URLs of a parsed task are, in document order,
  exactly the anchor targets in which one of the extensions \<open>.pdf\<close>, \<open>.csv\<close>, \<open>.json\<close>,
  \<open>.xlsx\<close>, \<open>.txt\<close> occurs somewhere (\<open>ext in href\<close>), not only at the end; a target in
  which none occurs is not collected.
\<close>

theorem parse_quiz_task_file_urls:
  assumes "parse_quiz_task env qd w = (Some ti, w')"
  shows "\<exists>sp. BeautifulSoup env (content qd) = Some sp
           \<and> file_urls ti =
               filter (\<lambda>href. \<exists>ext pre post.
                          ext \<in> set data_extensions \<and> href = pre @ ext @ post)
                 (find_all_a_href sp)"
proof -
  from assms obtain sp where sp: "BeautifulSoup env (content qd) = Some sp"
    by (auto simp: parse_quiz_task_def split: option.splits)
  with assms have "file_urls ti = filter has_data_extension (find_all_a_href sp)"
    by (auto simp: parse_quiz_task_def Let_def split: prod.splits)
  also have "has_data_extension = (\<lambda>href. \<exists>ext pre post.
                          ext \<in> set data_extensions \<and> href = pre @ ext @ post)"
    by (rule ext) (rule has_data_extension_iff)
  finally show ?thesis using sp by blast
qed

theorem parse_quiz_task_file_urls_witness:
  "parse_quiz_task demo_links_env
       \<lparr>content = demo_content, html = [], page_url = ''https://x/q1''\<rparr> (0, [])
     = (Some \<lparr>task_description = ''5'', raw_content = demo_content,
              submit_url = Some ''https://x/submit'',
              file_urls = [''data.csv?token=1'', ''report.pdf''], task_html = []\<rparr>, (0, []))
   \<and> (\<exists>sp. BeautifulSoup demo_links_env demo_content = Some sp
         \<and> [''data.csv?token=1'', ''report.pdf''] =
               filter (\<lambda>href. \<exists>ext pre post.
                          ext \<in> set data_extensions \<and> href = pre @ ext @ post)
                 (find_all_a_href sp))"
proof -
  have h: "parse_quiz_task demo_links_env
       \<lparr>content = demo_content, html = [], page_url = ''https://x/q1''\<rparr> (0, [])
     = (Some \<lparr>task_description = ''5'', raw_content = demo_content,
              submit_url = Some ''https://x/submit'',
              file_urls = [''data.csv?token=1'', ''report.pdf''], task_html = []\<rparr>, (0, []))"
    by (rule demo_links_parse)
  have c: "content \<lparr>content = demo_content, html = [], page_url = ''https://x/q1''\<rparr> = demo_content"
    by simp
  have f: "file_urls \<lparr>task_description = ''5'', raw_content = demo_content,
              submit_url = Some ''https://x/submit'',
              file_urls = [''data.csv?token=1'', ''report.pdf''], task_html = []\<rparr>
           = [''data.csv?token=1'', ''report.pdf'']"
    by simp
  from parse_quiz_task_file_urls [OF h] show ?thesis
    unfolding c f using h by (rule_tac conjI)
qed

text \<open>
  The claim as the specification states it fails: of the three links \<open>data.csv?token=1\<close>,
  \<open>about.html\<close>, \<open>report.pdf\<close> the first is collected, and it ends in none of the
  extensions.
\<close>

theorem collected_link_without_extension_suffix:
  "map_option file_urls
     (fst (parse_quiz_task demo_links_env
             \<lparr>content = demo_content, html = [], page_url = ''https://x/q1''\<rparr> (0, [])))
     = Some [''data.csv?token=1'', ''report.pdf'']
   \<and> \<not> list_ex (\<lambda>ext. endswith ''data.csv?token=1'' ext) data_extensions"
  by (simp add: demo_links_parse endswith_def data_extensions_def)

section \<open>The choice of the handler\<close>

text \<open>
  Claim C4 at the input \<open>[downloads/notes.txt, downloads/data.csv]\<close>: no file is a PDF and
  one is a CSV file, so the data-analysis handler is chosen; the file it is given is
  the first of the list, \<open>downloads/notes.txt\<close>, with the tag \<open>json\<close>.
\<close>

theorem analysis_branch_takes_first_file:
  "solve_task_with_files env d raw [''downloads/notes.txt'', ''downloads/data.csv''] w
     = DataAnalysisHandler_handle env d
         \<lparr>data = Some ''downloads/notes.txt'', data_type = Some ''json''\<rparr> w"
  by (simp add: solve_task_with_files_def endswith_def Let_def)

section \<open>The PDF strategy and the page reference\<close>

lemma pdf_extract_text_nat:
  "pdf_extract_text pages (Some (int n)) =
     (if n = 0 then Some (join nl pages)
      else if n \<le> length pages then Some (pages ! (n - 1))
      else None)"
  by (auto simp: pdf_extract_text_def py_index_def nat_diff_distrib')

lemma find_pdf:
  assumes "list_ex P xs"
  shows "\<exists>x. find P xs = Some x \<and> P x \<and> x \<in> set xs"
  using assms by (induction xs) auto

lemma demo_echo_fields:
  "chat_completions_create demo_echo_env = (\<lambda>messages w. (Some (snd (last messages)), w))"
  "PdfReader demo_echo_env = (\<lambda>f w. Some [''first page'', ''second page''])"
  by (simp_all add: demo_echo_env_def demo_env_def)

lemma page_see_page_2: "re_search_page ''see page 2'' = Some ''2''"
  by (simp add: page_match_here_def page_word_def is_space_def is_digit_def)

lemma page_see_page_0: "re_search_page ''see page 0'' = Some ''0''"
  by (simp add: page_match_here_def page_word_def is_space_def is_digit_def)

text \<open>
  Claim C9, as the code has it. Whenever some downloaded file ends in \<open>.pdf\<close>, the PDF
  handler is called, on the first such file, before the data-analysis and the general
  handler are considered; the page number it gets is the number of the first
  \<open>page N\<close> match in the raw text, if there is one. With the document's pages at hand,
  the text sent on is: page \<open>N\<close> alone when \<open>1 \<le> N\<close> and the document has that many pages
  (no answer when it has fewer); all pages joined by newlines when nothing matches or
  \<open>N = 0\<close>.
\<close>

theorem pdf_strategy_and_page:
  assumes "list_ex (\<lambda>f. endswith f ''.pdf'') downloaded_files"
  shows "\<exists>pdf_file. find (\<lambda>f. endswith f ''.pdf'') downloaded_files = Some pdf_file
           \<and> endswith pdf_file ''.pdf''
           \<and> solve_task_with_files env d raw downloaded_files w
               = PDFProcessingHandler_handle env d
                   \<lparr>pdf_path = Some pdf_file,
                    page_number = map_option (\<lambda>ds. int (digits_to_nat ds)) (re_search_page raw)\<rparr> w
           \<and> (\<forall>pages. PdfReader env pdf_file w = Some pages \<longrightarrow>
                solve_task_with_files env d raw downloaded_files w
                  = (case (case re_search_page raw of
                             None \<Rightarrow> Some (join nl pages)
                           | Some ds \<Rightarrow>
                               if digits_to_nat ds = 0 then Some (join nl pages)
                               else if digits_to_nat ds \<le> length pages
                               then Some (pages ! (digits_to_nat ds - 1))
                               else None) of
                       None \<Rightarrow> (None, w)
                     | Some text \<Rightarrow>
                         (case analyze_text env d (Some (''PDF Content:'' @ nl @ text)) w of
                            (r, w1) \<Rightarrow> (map_option AStr r, w1))))"
proof -
  from find_pdf [OF assms] obtain pdf_file
    where f: "find (\<lambda>f. endswith f ''.pdf'') downloaded_files = Some pdf_file"
      and e: "endswith pdf_file ''.pdf''" and m: "pdf_file \<in> set downloaded_files"
    by blast
  from m have ne: "downloaded_files \<noteq> []" by auto
  have sel: "solve_task_with_files env d raw downloaded_files w
               = PDFProcessingHandler_handle env d
                   \<lparr>pdf_path = Some pdf_file,
                    page_number = map_option (\<lambda>ds. int (digits_to_nat ds)) (re_search_page raw)\<rparr> w"
    using assms ne f by (simp add: solve_task_with_files_def Let_def)
  have extr: "pdf_extract_text pages (map_option (\<lambda>ds. int (digits_to_nat ds)) (re_search_page raw))
        = (case re_search_page raw of
             None \<Rightarrow> Some (join nl pages)
           | Some ds \<Rightarrow>
               if digits_to_nat ds = 0 then Some (join nl pages)
               else if digits_to_nat ds \<le> length pages
               then Some (pages ! (digits_to_nat ds - 1))
               else None)" for pages
    by (cases "re_search_page raw") (simp_all add: pdf_extract_text_nat, simp add: pdf_extract_text_def)
  have "\<forall>pages. PdfReader env pdf_file w = Some pages \<longrightarrow>
                solve_task_with_files env d raw downloaded_files w
                  = (case (case re_search_page raw of
                             None \<Rightarrow> Some (join nl pages)
                           | Some ds \<Rightarrow>
                               if digits_to_nat ds = 0 then Some (join nl pages)
                               else if digits_to_nat ds \<le> length pages
                               then Some (pages ! (digits_to_nat ds - 1))
                               else None) of
                       None \<Rightarrow> (None, w)
                     | Some text \<Rightarrow>
                         (case analyze_text env d (Some (''PDF Content:'' @ nl @ text)) w of
                            (r, w1) \<Rightarrow> (map_option AStr r, w1)))"
    unfolding sel by (simp add: PDFProcessingHandler_handle_def extr split: option.splits)
  with f e sel show ?thesis by blast
qed

lemma demo_echo_pdf:
  "solve_task_with_files demo_echo_env ''q'' ''see page 2'' [''downloads/report.pdf''] (0, [])
     = (Some (AStr (''Context:'' @ nl @ ''PDF Content:'' @ nl @ ''second page''
                     @ nl @ nl @ ''Task:'' @ nl @ ''q'')), (0, []))"
  by (simp add: solve_task_with_files_def endswith_def page_see_page_2 digits_to_nat_def
        digit_val_def PDFProcessingHandler_handle_def demo_echo_fields pdf_extract_text_def
        py_index_def analyze_text_def chat_messages_def nl_def Let_def del: re_search_page.simps)

theorem pdf_strategy_and_page_witness:
  "list_ex (\<lambda>f. endswith f ''.pdf'') [''downloads/notes.txt'', ''downloads/report.pdf'']
   \<and> (\<exists>pdf_file. find (\<lambda>f. endswith f ''.pdf'') [''downloads/notes.txt'', ''downloads/report.pdf'']
                    = Some pdf_file
         \<and> endswith pdf_file ''.pdf''
         \<and> solve_task_with_files demo_echo_env ''q'' ''see page 2''
              [''downloads/notes.txt'', ''downloads/report.pdf''] (0, [])
             = PDFProcessingHandler_handle demo_echo_env ''q''
                 \<lparr>pdf_path = Some pdf_file, page_number = Some 2\<rparr> (0, []))
   \<and> PDFProcessingHandler_handle demo_echo_env ''q''
        \<lparr>pdf_path = Some ''downloads/report.pdf'', page_number = Some 2\<rparr> (0, [])
       = (Some (AStr (''Context:'' @ nl @ ''PDF Content:'' @ nl @ ''second page''
                       @ nl @ nl @ ''Task:'' @ nl @ ''q'')), (0, []))"
proof -
  have h: "list_ex (\<lambda>f. endswith f ''.pdf'') [''downloads/notes.txt'', ''downloads/report.pdf'']"
    by (simp add: endswith_def)
  have n: "map_option (\<lambda>ds. int (digits_to_nat ds)) (re_search_page ''see page 2'') = Some 2"
    by (simp add: page_see_page_2 digits_to_nat_def digit_val_def del: re_search_page.simps)
  have r: "PDFProcessingHandler_handle demo_echo_env ''q''
        \<lparr>pdf_path = Some ''downloads/report.pdf'', page_number = Some 2\<rparr> (0, [])
       = (Some (AStr (''Context:'' @ nl @ ''PDF Content:'' @ nl @ ''second page''
                       @ nl @ nl @ ''Task:'' @ nl @ ''q'')), (0, []))"
    by (simp add: PDFProcessingHandler_handle_def demo_echo_fields pdf_extract_text_def
          py_index_def analyze_text_def chat_messages_def nl_def Let_def)
  from pdf_strategy_and_page [OF h, of demo_echo_env "''q''" "''see page 2''" "(0, [])"]
  show ?thesis unfolding n using h r by blast
qed

text \<open>
  The claim as the specification states it fails at \<open>see page 0\<close>: the text matches the
  pattern, and the handler still reads both pages of the document.
\<close>

theorem page_zero_matches_but_all_pages_are_read:
  "re_search_page ''see page 0'' = Some ''0''
   \<and> solve_task_with_files demo_echo_env ''q'' ''see page 0'' [''downloads/report.pdf''] (0, [])
       = (Some (AStr (''Context:'' @ nl @ ''PDF Content:'' @ nl @ ''first page'' @ nl
                       @ ''second page'' @ nl @ nl @ ''Task:'' @ nl @ ''q'')), (0, []))"
  by (simp add: solve_task_with_files_def endswith_def page_see_page_0 digits_to_nat_def
        digit_val_def PDFProcessingHandler_handle_def demo_echo_fields pdf_extract_text_def
        join_def analyze_text_def chat_messages_def nl_def Let_def del: re_search_page.simps)



section \<open>The submit URL\<close>

text \<open>No stage before the submission looks at the HTTP client.\<close>

lemma post_free_analyze:
  "analyze_text (env\<lparr>httpx_post := p\<rparr>) = analyze_text env"
  by (intro ext) (simp add: analyze_text_def)

lemma post_free_fetch:
  "fetch_quiz_page (env\<lparr>httpx_post := p\<rparr>) = fetch_quiz_page env"
  by (intro ext)
     (simp add: fetch_quiz_page_def cong: prod.case_cong option.case_cong bool.case_cong if_cong)

lemma post_free_parse:
  "parse_quiz_task (env\<lparr>httpx_post := p\<rparr>) = parse_quiz_task env"
  by (intro ext)
     (simp add: parse_quiz_task_def post_free_analyze cong: option.case_cong prod.case_cong if_cong)

lemma post_free_download_file:
  "download_file (env\<lparr>httpx_post := p\<rparr>) = download_file env"
  by (intro ext)
     (simp add: download_file_def cong: prod.case_cong option.case_cong bool.case_cong if_cong)

lemma post_free_download_all:
  "download_all (env\<lparr>httpx_post := p\<rparr>) us w = download_all env us w"
  by (induction us arbitrary: w)
     (simp_all add: post_free_download_file cong: prod.case_cong)

lemma post_free_parse_number:
  "parse_number (env\<lparr>httpx_post := p\<rparr>) = parse_number env"
  by (intro ext) (simp add: parse_number_def Let_def)

lemma post_free_math:
  "solve_math_problem (env\<lparr>httpx_post := p\<rparr>) = solve_math_problem env"
  by (intro ext)
     (simp add: solve_math_problem_def post_free_analyze post_free_parse_number
        cong: prod.case_cong option.case_cong if_cong)

lemma post_free_handlers:
  "PDFProcessingHandler_handle (env\<lparr>httpx_post := p\<rparr>) = PDFProcessingHandler_handle env"
  "DataAnalysisHandler_handle (env\<lparr>httpx_post := p\<rparr>) = DataAnalysisHandler_handle env"
  "GeneralTaskHandler_handle (env\<lparr>httpx_post := p\<rparr>) = GeneralTaskHandler_handle env"
  by (intro ext, simp add: PDFProcessingHandler_handle_def DataAnalysisHandler_handle_def
        GeneralTaskHandler_handle_def analysis_data_str_def general_context_str_def
        post_free_analyze post_free_math cong: prod.case_cong option.case_cong if_cong)+

lemma post_free_solve:
  "solve_task (env\<lparr>httpx_post := p\<rparr>) = solve_task env"
  by (intro ext)
     (simp add: solve_task_def solve_task_with_files_def post_free_download_all
        post_free_handlers cong: prod.case_cong option.case_cong list.case_cong if_cong)

lemma parse_submit_url:
  assumes "parse_quiz_task env qd w = (Some ti, w')"
  shows "submit_url ti = re_search_submit (content qd)"
proof -
  from assms obtain sp where sp: "BeautifulSoup env (content qd) = Some sp"
    by (cases "BeautifulSoup env (content qd)") (simp_all add: parse_quiz_task_def)
  obtain r w2 where "analyze_text env task_prompt (Some (get_text sp)) w = (r, w2)"
    by (cases "analyze_text env task_prompt (Some (get_text sp)) w")
  with assms sp show ?thesis
    by (auto simp: parse_quiz_task_def Let_def)
qed

lemma single_without_submit_url:
  assumes "fetch_quiz_page env u w = (Some qd, w1)"
      and "parse_quiz_task env qd w1 = (Some ti, w2)"
      and "submit_url ti = None"
  shows "solve_single_quiz env st u email secret r w = (None, snd (solve_task env ti w2))"
proof -
  obtain a w3 where s: "solve_task env ti w2 = (a, w3)"
    by (cases "solve_task env ti w2")
  with assms show ?thesis
    by (cases a) (simp_all add: solve_single_quiz_def)
qed

text \<open>
  Claim C7. For a page that was fetched and parsed, the submit URL is the result of the
  search for the submit pattern in the page's content: when it is some \<open>m\<close>, then \<open>m\<close>
  occurs in the content, is a string of the pattern's language (a URL with \<open>/submit\<close>
  after the host part), and no string of the language starts further left; it is \<open>None\<close>
  exactly when no part of the content is in the language. With no submit URL,
  \<open>solve_single_quiz\<close> returns no next URL, in the world that the solving stage left,
  whatever the HTTP client is (so no submission is made), and the chain's loop ends at
  its \<open>break\<close> after this one iteration.
\<close>

theorem submit_url_first_match_or_stop:
  assumes fetch: "fetch_quiz_page env u w = (Some qd, w1)"
      and parse: "parse_quiz_task env qd w1 = (Some ti, w2)"
  shows "submit_url ti = re_search_submit (content qd)
    \<and> (\<forall>m. submit_url ti = Some m \<longrightarrow>
          (\<exists>pre post. content qd = pre @ m @ post \<and> submit_lang m
             \<and> (\<forall>pre' m' post'. content qd = pre' @ m' @ post' \<and> submit_lang m'
                   \<longrightarrow> length pre \<le> length pre')))
    \<and> (submit_url ti = None
          \<longleftrightarrow> \<not> (\<exists>pre m post. content qd = pre @ m @ post \<and> submit_lang m))
    \<and> (submit_url ti = None \<longrightarrow>
          solve_single_quiz env st u email secret r w = (None, snd (solve_task env ti w2))
          \<and> (\<forall>post. solve_single_quiz (env\<lparr>httpx_post := post\<rparr>) st u email secret r w
                       = (None, snd (solve_task env ti w2)))
          \<and> (u \<noteq> [] \<and> \<not> fst (is_timeout (time_time env w) tm) \<longrightarrow>
               solve_quiz_chain_loop (Suc fuel) env st tm email secret u n lg w
                 = Some \<lparr>quiz_count = n + 1, solving_log = lg @ [u], left_by_break = True,
                         world = snd (solve_task env ti w2)\<rparr>))"
proof -
  have su: "submit_url ti = re_search_submit (content qd)"
    using parse by (rule parse_submit_url)
  have first: "\<forall>m. submit_url ti = Some m \<longrightarrow>
          (\<exists>pre post. content qd = pre @ m @ post \<and> submit_lang m
             \<and> (\<forall>pre' m' post'. content qd = pre' @ m' @ post' \<and> submit_lang m'
                   \<longrightarrow> length pre \<le> length pre'))"
    unfolding su using re_search_submit_Some by blast
  have none: "submit_url ti = None
          \<longleftrightarrow> \<not> (\<exists>pre m post. content qd = pre @ m @ post \<and> submit_lang m)"
    unfolding su by (rule re_search_submit_None)
  have stop: "submit_url ti = None \<longrightarrow>
          solve_single_quiz env st u email secret r w = (None, snd (solve_task env ti w2))
          \<and> (\<forall>post. solve_single_quiz (env\<lparr>httpx_post := post\<rparr>) st u email secret r w
                       = (None, snd (solve_task env ti w2)))
          \<and> (u \<noteq> [] \<and> \<not> fst (is_timeout (time_time env w) tm) \<longrightarrow>
               solve_quiz_chain_loop (Suc fuel) env st tm email secret u n lg w
                 = Some \<lparr>quiz_count = n + 1, solving_log = lg @ [u], left_by_break = True,
                         world = snd (solve_task env ti w2)\<rparr>)"
  proof
    assume nn: "submit_url ti = None"
    have a: "solve_single_quiz env st u email secret r' w = (None, snd (solve_task env ti w2))"
      for r'
      using fetch parse nn by (rule single_without_submit_url)
    have b: "solve_single_quiz (env\<lparr>httpx_post := post\<rparr>) st u email secret r w
                       = (None, snd (solve_task env ti w2))" for post
    proof -
      have "fetch_quiz_page (env\<lparr>httpx_post := post\<rparr>) u w = (Some qd, w1)"
        using fetch by (simp add: post_free_fetch)
      moreover have "parse_quiz_task (env\<lparr>httpx_post := post\<rparr>) qd w1 = (Some ti, w2)"
        using parse by (simp add: post_free_parse)
      ultimately have "solve_single_quiz (env\<lparr>httpx_post := post\<rparr>) st u email secret r w
          = (None, snd (solve_task (env\<lparr>httpx_post := post\<rparr>) ti w2))"
        using nn by (rule single_without_submit_url)
      then show ?thesis by (simp add: post_free_solve)
    qed
    have c: "u \<noteq> [] \<and> \<not> fst (is_timeout (time_time env w) tm) \<longrightarrow>
               solve_quiz_chain_loop (Suc fuel) env st tm email secret u n lg w
                 = Some \<lparr>quiz_count = n + 1, solving_log = lg @ [u], left_by_break = True,
                         world = snd (solve_task env ti w2)\<rparr>"
      by (simp add: a)
    from a b c show "solve_single_quiz env st u email secret r w = (None, snd (solve_task env ti w2))
          \<and> (\<forall>post. solve_single_quiz (env\<lparr>httpx_post := post\<rparr>) st u email secret r w
                       = (None, snd (solve_task env ti w2)))
          \<and> (u \<noteq> [] \<and> \<not> fst (is_timeout (time_time env w) tm) \<longrightarrow>
               solve_quiz_chain_loop (Suc fuel) env st tm email secret u n lg w
                 = Some \<lparr>quiz_count = n + 1, solving_log = lg @ [u], left_by_break = True,
                         world = snd (solve_task env ti w2)\<rparr>)"
      by blast
  qed
  from su first none stop show ?thesis by blast
qed


lemma demo_no_submit_fields:
  "time_time demo_no_submit_env = fst"
  "browser_start demo_no_submit_env = (\<lambda>w. (True, w))"
  "browser_close demo_no_submit_env = (\<lambda>w. w)"
  "browser_navigate_to demo_no_submit_env
     = (\<lambda>u w. (True, (fst w + 2, snd w @ [''GET '' @ u])))"
  "browser_extract_quiz_instructions demo_no_submit_env = (\<lambda>w. (Some ''What is 2+3?'', w))"
  "browser_get_page_content demo_no_submit_env = (\<lambda>w. (''<html></html>'', w))"
  "BeautifulSoup demo_no_submit_env = (\<lambda>c. Some \<lparr>get_text = c, find_all_a_href = []\<rparr>)"
  "chat_completions_create demo_no_submit_env = (\<lambda>messages w. (Some ''5'', w))"
  by (simp_all add: demo_no_submit_env_def demo_env_def)

lemma demo_no_submit_fetch:
  "fetch_quiz_page demo_no_submit_env u w
     = (Some \<lparr>content = ''What is 2+3?'', html = ''<html></html>'', page_url = u\<rparr>,
        (fst w + 2, snd w @ [''GET '' @ u]))"
  by (simp add: fetch_quiz_page_def demo_no_submit_fields)

lemma demo_no_submit_search: "re_search_submit ''What is 2+3?'' = None"
  by (simp add: submit_match_here_def scheme_of_def startswith_def)

lemma demo_no_submit_parse:
  "parse_quiz_task demo_no_submit_env
       \<lparr>content = ''What is 2+3?'', html = h, page_url = u\<rparr> w
     = (Some \<lparr>task_description = ''5'', raw_content = ''What is 2+3?'',
              submit_url = None, file_urls = [], task_html = h\<rparr>, w)"
  by (simp add: parse_quiz_task_def analyze_text_def demo_no_submit_search
        demo_no_submit_fields Let_def del: re_search_submit.simps)

lemma demo_no_submit_solve:
  "solve_task demo_no_submit_env
       \<lparr>task_description = d, raw_content = r, submit_url = su, file_urls = [],
        task_html = h\<rparr> w
     = (Some (AStr ''5''), w)"
  by (simp add: solve_task_def solve_task_with_files_def GeneralTaskHandler_handle_def
        analyze_text_def demo_no_submit_fields Let_def)

theorem submit_url_first_match_or_stop_witness:
  "fetch_quiz_page demo_no_submit_env ''https://x/q1'' (0, [])
     = (Some \<lparr>content = ''What is 2+3?'', html = ''<html></html>'', page_url = ''https://x/q1''\<rparr>,
        (2, [''GET https://x/q1'']))
   \<and> parse_quiz_task demo_no_submit_env
        \<lparr>content = ''What is 2+3?'', html = ''<html></html>'', page_url = ''https://x/q1''\<rparr>
        (2, [''GET https://x/q1''])
       = (Some \<lparr>task_description = ''5'', raw_content = ''What is 2+3?'',
                submit_url = None, file_urls = [], task_html = ''<html></html>''\<rparr>,
          (2, [''GET https://x/q1'']))
   \<and> solve_single_quiz demo_no_submit_env default_settings ''https://x/q1'' ''a@b.c'' ''s'' 180
        (0, []) = (None, (2, [''GET https://x/q1'']))
   \<and> solve_quiz_chain_loop (Suc 0) demo_no_submit_env default_settings
        (Timer_enter 0 (Timer_init 180)) ''a@b.c'' ''s'' ''https://x/q1'' 0 [] (0, [])
       = Some \<lparr>quiz_count = 1, solving_log = [''https://x/q1''], left_by_break = True,
               world = (2, [''GET https://x/q1''])\<rparr>
   \<and> fetch_quiz_page demo_env ''https://x/q1'' (0, [])
       = (Some \<lparr>content = demo_content, html = ''<html></html>'', page_url = ''https://x/q1''\<rparr>,
          (2, [''GET https://x/q1'']))
   \<and> parse_quiz_task demo_env
        \<lparr>content = demo_content, html = ''<html></html>'', page_url = ''https://x/q1''\<rparr>
        (2, [''GET https://x/q1''])
       = (Some \<lparr>task_description = ''5'', raw_content = demo_content,
                submit_url = Some ''https://x/submit'', file_urls = [],
                task_html = ''<html></html>''\<rparr>,
          (2, [''GET https://x/q1'']))
   \<and> (\<exists>pre post. demo_content = pre @ ''https://x/submit'' @ post
          \<and> submit_lang ''https://x/submit'')"
proof -
  let ?qd = "\<lparr>content = ''What is 2+3?'', html = ''<html></html>'', page_url = ''https://x/q1''\<rparr>"
  let ?ti = "\<lparr>task_description = ''5'', raw_content = ''What is 2+3?'',
              submit_url = None, file_urls = [], task_html = ''<html></html>''\<rparr>"
  have f: "fetch_quiz_page demo_no_submit_env ''https://x/q1'' (0, [])
            = (Some ?qd, (2, [''GET https://x/q1'']))"
    by (simp add: demo_no_submit_fetch)
  have p: "parse_quiz_task demo_no_submit_env ?qd (2, [''GET https://x/q1''])
            = (Some ?ti, (2, [''GET https://x/q1'']))"
    by (rule demo_no_submit_parse)
  have n: "submit_url ?ti = None" by simp
  have s: "snd (solve_task demo_no_submit_env ?ti (2, [''GET https://x/q1'']))
            = (2, [''GET https://x/q1''])"
    by (simp add: demo_no_submit_solve)
  have h: "''https://x/q1'' \<noteq> []
           \<and> \<not> fst (is_timeout (time_time demo_no_submit_env (0, []))
                     (Timer_enter 0 (Timer_init 180)))"
    by (simp add: demo_no_submit_fields is_timeout_def elapsed_def Timer_enter_def
          Timer_init_def)
  note t = submit_url_first_match_or_stop
             [OF f p, where st = default_settings and email = "''a@b.c''" and secret = "''s''"
                and r = 180 and tm = "Timer_enter 0 (Timer_init 180)" and fuel = 0
                and n = 0 and lg = "[]"]
  note stop = t [THEN conjunct2, THEN conjunct2, THEN conjunct2, THEN mp, OF n]
  from stop [THEN conjunct1]
  have a: "solve_single_quiz demo_no_submit_env default_settings ''https://x/q1'' ''a@b.c'' ''s''
             180 (0, []) = (None, (2, [''GET https://x/q1'']))"
    unfolding s .
  from stop [THEN conjunct2, THEN conjunct2, THEN mp, OF h]
  have b: "solve_quiz_chain_loop (Suc 0) demo_no_submit_env default_settings
        (Timer_enter 0 (Timer_init 180)) ''a@b.c'' ''s'' ''https://x/q1'' 0 [] (0, [])
       = Some \<lparr>quiz_count = 1, solving_log = [''https://x/q1''], left_by_break = True,
               world = (2, [''GET https://x/q1''])\<rparr>"
    unfolding s by simp
  let ?qd2 = "\<lparr>content = demo_content, html = ''<html></html>'', page_url = ''https://x/q1''\<rparr>"
  let ?ti2 = "\<lparr>task_description = ''5'', raw_content = demo_content,
                submit_url = Some ''https://x/submit'', file_urls = [],
                task_html = ''<html></html>''\<rparr>"
  have f2: "fetch_quiz_page demo_env ''https://x/q1'' (0, [])
            = (Some ?qd2, (2, [''GET https://x/q1'']))"
    by (simp add: demo_fetch)
  have p2: "parse_quiz_task demo_env ?qd2 (2, [''GET https://x/q1''])
            = (Some ?ti2, (2, [''GET https://x/q1'']))"
    by (rule demo_parse)
  have m: "submit_url ?ti2 = Some ''https://x/submit''" by simp
  from submit_url_first_match_or_stop [OF f2 p2, THEN conjunct2, THEN conjunct1,
         rule_format, OF m]
  obtain pre post where "content ?qd2 = pre @ ''https://x/submit'' @ post"
    and l: "submit_lang ''https://x/submit''"
    by blast
  then have "demo_content = pre @ ''https://x/submit'' @ post"
    by (simp only: quiz_data.simps)
  with l have c': "\<exists>pre post. demo_content = pre @ ''https://x/submit'' @ post
          \<and> submit_lang ''https://x/submit''"
    by blast
  from f p a b f2 p2 c' show ?thesis by blast
qed

section \<open>The chain: the verdict and the time budget\<close>

lemma single_with_verdict:
  assumes "fetch_quiz_page env u w = (Some qd, w1)"
      and "parse_quiz_task env qd w1 = (Some ti, w2)"
      and "solve_task env ti w2 = (Some ans, w3)"
      and "submit_url ti = Some target" and "target \<noteq> []"
      and "submit_answer env st target email secret u ans w3 = (Some verdict, w4)"
  shows "solve_single_quiz env st u email secret r w = (url verdict, w4)"
  using assms by (simp add: solve_single_quiz_def)

lemma loop_stops_when_expired:
  assumes "fst (is_timeout (time_time env w) tm)"
  shows "solve_quiz_chain_loop (Suc fuel) env st tm email secret u n lg w
           = Some \<lparr>quiz_count = n, solving_log = lg, left_by_break = False, world = w\<rparr>"
  using assms by simp

lemma loop_iteration:
  assumes "u \<noteq> []" and "\<not> fst (is_timeout (time_time env w) tm)"
      and "solve_single_quiz env st u email secret (fst (remaining (time_time env w) tm)) w
             = (nxt, w1)"
  shows "solve_quiz_chain_loop (Suc fuel) env st tm email secret u n lg w
           = (if nxt = None \<or> nxt = Some []
              then Some \<lparr>quiz_count = n + 1, solving_log = lg @ [u], left_by_break = True,
                         world = w1\<rparr>
              else solve_quiz_chain_loop fuel env st tm email secret (the nxt) (n + 1)
                     (lg @ [u]) w1)"
  using assms by (cases nxt) auto






lemma demo_timer_180:
  "\<not> fst (is_timeout (time_time demo_env (0, [])) (Timer_enter 0 (Timer_init 180)))"
  "\<not> fst (is_timeout (time_time demo_env (3, lg)) (Timer_enter 0 (Timer_init 180)))"
  "\<not> fst (is_timeout (time_time demo_env (6, lg)) (Timer_enter 0 (Timer_init 180)))"
  by (simp_all add: demo_fields is_timeout_def elapsed_def Timer_enter_def Timer_init_def)


text \<open>
  Claim C1, as the code has it. After a submission that returned a verdict,
  \<open>solve_single_quiz\<close> returns the verdict's \<open>url\<close>, whatever \<open>correct\<close> is. When it is \<open>None\<close> or
  empty, the loop ends at its \<open>break\<close>. When it is a non-empty URL, that URL becomes the
  current one and the loop is back at its head: if the timer has expired by then, the
  chain ends there and the URL is not fetched; if not, the next iteration is
  \<open>solve_single_quiz\<close> on that URL, which begins with its fetch.
\<close>

theorem chain_follows_verdict_url:
  assumes "u \<noteq> []" and "\<not> fst (is_timeout (time_time env w) tm)"
      and "fetch_quiz_page env u w = (Some qd, w1)"
      and "parse_quiz_task env qd w1 = (Some ti, w2)"
      and "solve_task env ti w2 = (Some ans, w3)"
      and "submit_url ti = Some target" and "target \<noteq> []"
      and "submit_answer env st target email secret u ans w3 = (Some verdict, w4)"
  shows "solve_single_quiz env st u email secret r w = (url verdict, w4)
     \<and> (url verdict = None \<or> url verdict = Some [] \<longrightarrow>
          solve_quiz_chain_loop (Suc fuel) env st tm email secret u n lg w
            = Some \<lparr>quiz_count = n + 1, solving_log = lg @ [u], left_by_break = True,
                    world = w4\<rparr>)
     \<and> (\<forall>v. url verdict = Some v \<and> v \<noteq> [] \<longrightarrow>
          solve_quiz_chain_loop (Suc fuel) env st tm email secret u n lg w
            = solve_quiz_chain_loop fuel env st tm email secret v (n + 1) (lg @ [u]) w4)
     \<and> (\<forall>v. url verdict = Some v \<and> v \<noteq> [] \<and> fst (is_timeout (time_time env w4) tm) \<longrightarrow>
          solve_quiz_chain_loop (Suc (Suc fuel)) env st tm email secret u n lg w
            = Some \<lparr>quiz_count = n + 1, solving_log = lg @ [u], left_by_break = False,
                    world = w4\<rparr>)
     \<and> (\<forall>v. url verdict = Some v \<and> v \<noteq> [] \<and> \<not> fst (is_timeout (time_time env w4) tm) \<longrightarrow>
          solve_quiz_chain_loop (Suc (Suc fuel)) env st tm email secret u n lg w
            = (case solve_single_quiz env st v email secret
                      (fst (remaining (time_time env w4) tm)) w4 of
                 (nxt, w5) \<Rightarrow>
                   if nxt = None \<or> nxt = Some []
                   then Some \<lparr>quiz_count = n + 2, solving_log = lg @ [u, v],
                              left_by_break = True, world = w5\<rparr>
                   else solve_quiz_chain_loop fuel env st tm email secret (the nxt) (n + 2)
                          (lg @ [u, v]) w5))"
proof -
  have s: "solve_single_quiz env st u email secret r' w = (url verdict, w4)" for r'
    using assms(3-8) by (rule single_with_verdict)
  note it = loop_iteration [OF assms(1,2) s, of _ n lg]
  have stop: "url verdict = None \<or> url verdict = Some [] \<longrightarrow>
          solve_quiz_chain_loop (Suc fuel) env st tm email secret u n lg w
            = Some \<lparr>quiz_count = n + 1, solving_log = lg @ [u], left_by_break = True,
                    world = w4\<rparr>"
    using it [of fuel] by simp
  have go: "url verdict = Some v \<and> v \<noteq> [] \<longrightarrow>
          solve_quiz_chain_loop (Suc fuel') env st tm email secret u n lg w
            = solve_quiz_chain_loop fuel' env st tm email secret v (n + 1) (lg @ [u]) w4"
    for v fuel'
    using it [of fuel'] by simp
  have late: "url verdict = Some v \<and> v \<noteq> [] \<and> fst (is_timeout (time_time env w4) tm) \<longrightarrow>
          solve_quiz_chain_loop (Suc (Suc fuel)) env st tm email secret u n lg w
            = Some \<lparr>quiz_count = n + 1, solving_log = lg @ [u], left_by_break = False,
                    world = w4\<rparr>" for v
    using go [of v "Suc fuel"]
          loop_stops_when_expired [of env w4 tm fuel st email secret v "n + 1" "lg @ [u]"]
    by simp
  have next_it: "url verdict = Some v \<and> v \<noteq> [] \<and> \<not> fst (is_timeout (time_time env w4) tm) \<longrightarrow>
          solve_quiz_chain_loop (Suc (Suc fuel)) env st tm email secret u n lg w
            = (case solve_single_quiz env st v email secret
                      (fst (remaining (time_time env w4) tm)) w4 of
                 (nxt, w5) \<Rightarrow>
                   if nxt = None \<or> nxt = Some []
                   then Some \<lparr>quiz_count = n + 2, solving_log = lg @ [u, v],
                              left_by_break = True, world = w5\<rparr>
                   else solve_quiz_chain_loop fuel env st tm email secret (the nxt) (n + 2)
                          (lg @ [u, v]) w5)" for v
  proof
    assume h: "url verdict = Some v \<and> v \<noteq> [] \<and> \<not> fst (is_timeout (time_time env w4) tm)"
    obtain nxt w5
      where s2: "solve_single_quiz env st v email secret
                   (fst (remaining (time_time env w4) tm)) w4 = (nxt, w5)"
      by (cases "solve_single_quiz env st v email secret
                   (fst (remaining (time_time env w4) tm)) w4")
    from h have v: "v \<noteq> []" and nt: "\<not> fst (is_timeout (time_time env w4) tm)" by simp_all
    from loop_iteration [OF v nt s2, of fuel "n + 1" "lg @ [u]"] go [of v "Suc fuel"] h
    show "solve_quiz_chain_loop (Suc (Suc fuel)) env st tm email secret u n lg w
            = (case solve_single_quiz env st v email secret
                      (fst (remaining (time_time env w4) tm)) w4 of
                 (nxt, w5) \<Rightarrow>
                   if nxt = None \<or> nxt = Some []
                   then Some \<lparr>quiz_count = n + 2, solving_log = lg @ [u, v],
                              left_by_break = True, world = w5\<rparr>
                   else solve_quiz_chain_loop fuel env st tm email secret (the nxt) (n + 2)
                          (lg @ [u, v]) w5)"
      unfolding s2 by (simp add: add.commute)
  qed
  from s stop go late next_it show ?thesis by blast
qed

text \<open>
  The claim as the specification states it fails with a budget of one second: the
  verdict for \<open>https://x/q1\<close> names \<open>https://x/q2\<close>, the iteration ended at second 3, and
  the chain ends with one quiz solved and no request for \<open>https://x/q2\<close>.
\<close>

theorem verdict_url_not_followed_after_timeout:
  "fst (solve_single_quiz demo_env \<lparr>settings_timeout_seconds = 1, max_payload_size = 1048576\<rparr>
          ''https://x/q1'' ''a@b.c'' ''s'' 1 (0, [])) = Some ''https://x/q2''
   \<and> solve_quiz_chain (Suc (Suc (Suc 0))) demo_env
        \<lparr>settings_timeout_seconds = 1, max_payload_size = 1048576\<rparr>
        ''https://x/q1'' ''a@b.c'' ''s'' (0, [])
       = Some (\<lparr>quiz_count = 1, solving_log = [''https://x/q1''], left_by_break = False,
                world = (3, [''GET https://x/q1'', ''POST https://x/submit''])\<rparr>,
               Quiz_chain_timed_out)"
  by (simp add: solve_quiz_chain_def demo_single demo_fields is_timeout_def remaining_def
        elapsed_def Timer_enter_def Timer_init_def)


theorem chain_follows_verdict_url_witness:
  "submit_answer demo_env default_settings ''https://x/submit'' ''a@b.c'' ''s'' ''https://x/q1''
       (AStr ''5'') (2, [''GET https://x/q1''])
     = (Some \<lparr>correct = True, url = Some ''https://x/q2'', reason = None\<rparr>,
        (3, [''GET https://x/q1'', ''POST https://x/submit'']))
   \<and> solve_single_quiz demo_env default_settings ''https://x/q1'' ''a@b.c'' ''s'' 180 (0, [])
       = (Some ''https://x/q2'', (3, [''GET https://x/q1'', ''POST https://x/submit'']))
   \<and> submit_answer demo_env default_settings ''https://x/submit'' ''a@b.c'' ''s'' ''https://x/q2''
         (AStr ''5'')
         (5, [''GET https://x/q1'', ''POST https://x/submit'', ''GET https://x/q2''])
       = (Some \<lparr>correct = False, url = None, reason = Some ''too high''\<rparr>,
          (6, [''GET https://x/q1'', ''POST https://x/submit'', ''GET https://x/q2'',
               ''POST https://x/submit'']))
   \<and> solve_single_quiz demo_env default_settings ''https://x/q2'' ''a@b.c'' ''s'' 177
         (3, [''GET https://x/q1'', ''POST https://x/submit''])
       = (None, (6, [''GET https://x/q1'', ''POST https://x/submit'', ''GET https://x/q2'',
                     ''POST https://x/submit'']))
   \<and> solve_quiz_chain_loop (Suc (Suc 0)) demo_env default_settings
         (Timer_enter 0 (Timer_init 180)) ''a@b.c'' ''s'' ''https://x/q1'' 0 [] (0, [])
       = Some \<lparr>quiz_count = 2, solving_log = [''https://x/q1'', ''https://x/q2''],
               left_by_break = True,
               world = (6, [''GET https://x/q1'', ''POST https://x/submit'',
                            ''GET https://x/q2'', ''POST https://x/submit''])\<rparr>"
proof -
  let ?tm = "Timer_enter 0 (Timer_init 180)"
  let ?wa = "(2 :: real, [''GET https://x/q1''])"
  let ?wb = "(3 :: real, [''GET https://x/q1'', ''POST https://x/submit''])"
  let ?wc = "(5 :: real, [''GET https://x/q1'', ''POST https://x/submit'', ''GET https://x/q2''])"
  let ?wd = "(6 :: real, [''GET https://x/q1'', ''POST https://x/submit'', ''GET https://x/q2'',
                 ''POST https://x/submit''])"
  let ?qd1 = "\<lparr>content = demo_content, html = ''<html></html>'', page_url = ''https://x/q1''\<rparr>"
  let ?qd2 = "\<lparr>content = demo_content, html = ''<html></html>'', page_url = ''https://x/q2''\<rparr>"
  let ?ti = "\<lparr>task_description = ''5'', raw_content = demo_content,
              submit_url = Some ''https://x/submit'', file_urls = [],
              task_html = ''<html></html>''\<rparr>"
  let ?v1 = "\<lparr>correct = True, url = Some ''https://x/q2'', reason = None\<rparr>"
  let ?v2 = "\<lparr>correct = False, url = None, reason = Some ''too high''\<rparr>"
  have mx: "2 \<le> max_payload_size default_settings" by (simp add: default_settings_def)
  have u1: "''https://x/q1'' \<noteq> []" and u2: "''https://x/q2'' \<noteq> []"
    and tg: "''https://x/submit'' \<noteq> []" by simp_all
  have f1: "fetch_quiz_page demo_env ''https://x/q1'' (0, []) = (Some ?qd1, ?wa)"
    by (simp add: demo_fetch)
  have f2: "fetch_quiz_page demo_env ''https://x/q2'' ?wb = (Some ?qd2, ?wc)"
    by (simp add: demo_fetch)
  have p1: "parse_quiz_task demo_env ?qd1 ?wa = (Some ?ti, ?wa)" by (rule demo_parse)
  have p2: "parse_quiz_task demo_env ?qd2 ?wc = (Some ?ti, ?wc)" by (rule demo_parse)
  have s1: "solve_task demo_env ?ti ?wa = (Some (AStr ''5''), ?wa)" by (rule demo_solve)
  have s2: "solve_task demo_env ?ti ?wc = (Some (AStr ''5''), ?wc)" by (rule demo_solve)
  have su: "submit_url ?ti = Some ''https://x/submit''" by simp
  have a1: "submit_answer demo_env default_settings ''https://x/submit'' ''a@b.c'' ''s''
              ''https://x/q1'' (AStr ''5'') ?wa = (Some ?v1, ?wb)"
    by (simp add: demo_submit [OF mx] demo_verdict_def)
  have a2: "submit_answer demo_env default_settings ''https://x/submit'' ''a@b.c'' ''s''
              ''https://x/q2'' (AStr ''5'') ?wc = (Some ?v2, ?wd)"
    by (simp add: demo_submit [OF mx] demo_verdict_def)
  note t1 = chain_follows_verdict_url
              [OF u1 demo_timer_180(1) f1 p1 s1 su tg a1, where r = 180 and fuel = "Suc 0"
                 and n = 0 and lg = "[]"]
  note t2 = chain_follows_verdict_url
              [OF u2 demo_timer_180(2) f2 p2 s2 su tg a2, where r = 177 and fuel = 0
                 and n = 1 and lg = "[''https://x/q1'']"]
  from t1 [THEN conjunct1]
  have r1: "solve_single_quiz demo_env default_settings ''https://x/q1'' ''a@b.c'' ''s'' 180 (0, [])
              = (Some ''https://x/q2'', ?wb)" by simp
  from t2 [THEN conjunct1]
  have r2: "solve_single_quiz demo_env default_settings ''https://x/q2'' ''a@b.c'' ''s'' 177 ?wb
              = (None, ?wd)" by simp
  from t1 [THEN conjunct2, THEN conjunct2, THEN conjunct1, rule_format, of "''https://x/q2''"]
  have l1: "solve_quiz_chain_loop (Suc (Suc 0)) demo_env default_settings ?tm ''a@b.c'' ''s''
              ''https://x/q1'' 0 [] (0, [])
            = solve_quiz_chain_loop (Suc 0) demo_env default_settings ?tm ''a@b.c'' ''s''
                ''https://x/q2'' (0 + 1) ([] @ [''https://x/q1'']) ?wb"
    by simp
  from t2 [THEN conjunct2, THEN conjunct1]
  have l2: "solve_quiz_chain_loop (Suc 0) demo_env default_settings ?tm ''a@b.c'' ''s''
              ''https://x/q2'' 1 [''https://x/q1''] ?wb
            = Some \<lparr>quiz_count = 2, solving_log = [''https://x/q1'', ''https://x/q2''],
                    left_by_break = True, world = ?wd\<rparr>"
    by simp
  from l1 l2
  have l: "solve_quiz_chain_loop (Suc (Suc 0)) demo_env default_settings ?tm ''a@b.c'' ''s''
              ''https://x/q1'' 0 [] (0, [])
            = Some \<lparr>quiz_count = 2, solving_log = [''https://x/q1'', ''https://x/q2''],
                    left_by_break = True, world = ?wd\<rparr>"
    by simp
  from a1 r1 a2 r2 l show ?thesis by blast
qed

section \<open>Numeric replies\<close>

lemma analyze_text_reply:
  assumes "analyze_text env p c w = (Some reply, w1)"
  shows "\<exists>messages. chat_completions_create env messages w = (Some reply, w1)"
  using assms unfolding analyze_text_def by (rule exI)

lemma solve_math_problem_reply:
  assumes "solve_math_problem env problem dat w = (Some a, w1)"
  shows "\<exists>messages reply. chat_completions_create env messages w = (Some reply, w1)
           \<and> reply \<noteq> [] \<and> a = parse_number env reply"
proof -
  obtain r w' where an: "analyze_text env (math_prompt problem dat) None w = (r, w')"
    by (cases "analyze_text env (math_prompt problem dat) None w")
  with assms obtain reply where r: "r = Some reply"
    by (cases r) (simp_all add: solve_math_problem_def)
  with an assms have n: "reply \<noteq> []" and w': "w' = w1" and a: "a = parse_number env reply"
    by (simp_all add: solve_math_problem_def split: if_splits)
  from an r w' have "analyze_text env (math_prompt problem dat) None w = (Some reply, w1)"
    by simp
  from analyze_text_reply [OF this] obtain messages
    where "chat_completions_create env messages w = (Some reply, w1)" ..
  with n a show ?thesis by blast
qed

lemma DataAnalysisHandler_reply:
  assumes "DataAnalysisHandler_handle env d ctx w = (Some a, w1)"
  shows "\<exists>messages reply. chat_completions_create env messages w = (Some reply, w1)
           \<and> reply \<noteq> [] \<and> a = parse_number env reply"
proof (cases "analysis_data_str env ctx w")
  case None
  with assms show ?thesis by (simp add: DataAnalysisHandler_handle_def)
next
  case (Some ds)
  with assms have "solve_math_problem env d (Some ds) w = (Some a, w1)"
    by (simp add: DataAnalysisHandler_handle_def)
  then show ?thesis by (rule solve_math_problem_reply)
qed

lemma handler_text_reply:
  assumes "analyze_text env d c w = (r, w')" and "(map_option AStr r, w') = (Some a, w1)"
  shows "\<exists>messages reply. chat_completions_create env messages w = (Some reply, w1)
           \<and> a = AStr reply"
proof -
  from assms(2) obtain reply where r: "r = Some reply" and a: "a = AStr reply" and w: "w' = w1"
    by (cases r) auto
  from assms(1) r w have "analyze_text env d c w = (Some reply, w1)" by simp
  from analyze_text_reply [OF this] a show ?thesis by blast
qed

lemma GeneralTaskHandler_reply:
  assumes "GeneralTaskHandler_handle env d ctx w = (Some a, w1)"
  shows "\<exists>messages reply. chat_completions_create env messages w = (Some reply, w1)
           \<and> a = AStr reply"
proof -
  define c where "c = (if general_context_str env ctx \<noteq> []
                        then Some (general_context_str env ctx) else None)"
  obtain r w' where an: "analyze_text env d c w = (r, w')"
    by (cases "analyze_text env d c w")
  with assms have "(map_option AStr r, w') = (Some a, w1)"
    by (simp add: GeneralTaskHandler_handle_def Let_def c_def)
  with an show ?thesis by (rule handler_text_reply)
qed

lemma PDFProcessingHandler_reply:
  assumes "PDFProcessingHandler_handle env d ctx w = (Some a, w1)"
  shows "\<exists>messages reply. chat_completions_create env messages w = (Some reply, w1)
           \<and> a = AStr reply"
proof -
  from assms obtain p where p: "pdf_path ctx = Some p"
    by (cases "pdf_path ctx") (simp_all add: PDFProcessingHandler_handle_def)
  with assms obtain pages where pg: "PdfReader env p w = Some pages"
    by (cases "PdfReader env p w") (simp_all add: PDFProcessingHandler_handle_def)
  with assms p obtain t where t: "pdf_extract_text pages (page_number ctx) = Some t"
    by (cases "pdf_extract_text pages (page_number ctx)")
       (simp_all add: PDFProcessingHandler_handle_def)
  obtain r w' where an: "analyze_text env d (Some (''PDF Content:'' @ nl @ t)) w = (r, w')"
    by (cases "analyze_text env d (Some (''PDF Content:'' @ nl @ t)) w")
  with assms p pg t have "(map_option AStr r, w') = (Some a, w1)"
    by (simp add: PDFProcessingHandler_handle_def)
  with an show ?thesis by (rule handler_text_reply)
qed

text \<open>Which handler \<open>solve_task\<close> calls, by the files it downloaded.\<close>

lemma solve_task_pdf:
  assumes "download_all env (file_urls ti) w = (files, w')"
    and "find (\<lambda>f. endswith f ''.pdf'') files = Some pdf_file"
  shows "solve_task env ti w
           = PDFProcessingHandler_handle env (task_description ti)
               \<lparr>pdf_path = Some pdf_file,
                page_number = map_option (\<lambda>ds. int (digits_to_nat ds))
                                (re_search_page (raw_content ti))\<rparr> w'"
proof -
  from assms(2) have "list_ex (\<lambda>f. endswith f ''.pdf'') files"
    by (induction files) (auto split: if_splits)
  moreover from this have "files \<noteq> []" by auto
  ultimately show ?thesis
    using assms by (simp add: solve_task_def solve_task_with_files_def Let_def)
qed

lemma solve_task_data:
  assumes "download_all env (file_urls ti) w = (data_file # fs, w')"
    and "\<not> list_ex (\<lambda>f. endswith f ''.pdf'') (data_file # fs)"
    and "list_ex (\<lambda>f. endswith f ''.csv'' \<or> endswith f ''.json'') (data_file # fs)"
  shows "solve_task env ti w
           = DataAnalysisHandler_handle env (task_description ti)
               \<lparr>data = Some data_file,
                data_type = Some (if endswith data_file ''.csv'' then ''csv'' else ''json'')\<rparr> w'"
  using assms unfolding solve_task_def solve_task_with_files_def Let_def
  by (simp only: prod.case if_False if_True list.case list.distinct not_False_eq_True simp_thms)

lemma solve_task_general:
  assumes "download_all env (file_urls ti) w = (files, w')"
    and "\<not> list_ex (\<lambda>f. endswith f ''.pdf'') files"
    and "\<not> list_ex (\<lambda>f. endswith f ''.csv'' \<or> endswith f ''.json'') files"
  shows "solve_task env ti w
           = GeneralTaskHandler_handle env (task_description ti)
               \<lparr>ctx_task = task_description ti, ctx_content = raw_content ti,
                ctx_files = files\<rparr> w'"
  using assms unfolding solve_task_def solve_task_with_files_def Let_def
  by (simp only: prod.case if_False simp_thms)

lemma single_submits_answer:
  assumes "fetch_quiz_page env u w = (Some qd, w1)"
    and "parse_quiz_task env qd w1 = (Some ti, w2)"
    and "solve_task env ti w2 = (Some ans, w3)"
    and "submit_url ti = Some target" and "target \<noteq> []"
  shows "solve_single_quiz env st u email secret r w
           = (case submit_answer env st target email secret u ans w3 of
                (None, w4) \<Rightarrow> (None, w4)
              | (Some response, w4) \<Rightarrow> (url response, w4))"
  using assms by (simp add: solve_single_quiz_def)

lemma submit_answer_posts:
  assumes "get_payload_size env \<lparr>payload_email = email, payload_secret = secret,
            payload_url = quiz_url, payload_answer = ans\<rparr> = Some k"
    and "int k \<le> max_payload_size st"
  shows "submit_answer env st target email secret quiz_url ans w
          = (case httpx_post env target \<lparr>payload_email = email, payload_secret = secret,
                    payload_url = quiz_url, payload_answer = ans\<rparr> w of
               (None, w4) \<Rightarrow> (None, w4)
             | (Some response, w4) \<Rightarrow>
                 if status_code response = 200
                 then (parse_SubmitResponse env (body response), w4)
                 else (None, w4))"
  using assms by (simp add: submit_answer_def Let_def)

lemma parse_number_cases:
  "(CHR ''.'' \<notin> set (remove_commas (strip r))
        \<and> py_int (int_max_str_digits env) (remove_commas (strip r)) = Some n
        \<longrightarrow> parse_number env r = AInt n)
   \<and> (CHR ''.'' \<in> set (remove_commas (strip r)) \<and> py_float env (remove_commas (strip r)) = Some f
        \<longrightarrow> parse_number env r = AFloat f)
   \<and> (CHR ''.'' \<notin> set (remove_commas (strip r))
        \<and> py_int (int_max_str_digits env) (remove_commas (strip r)) = None
        \<longrightarrow> parse_number env r = AStr (strip r))
   \<and> (CHR ''.'' \<in> set (remove_commas (strip r)) \<and> py_float env (remove_commas (strip r)) = None
        \<longrightarrow> parse_number env r = AStr (strip r))"
  by (simp add: parse_number_def Let_def)

text \<open>
  Claim C6, as the code has it. \<open>solve_task\<close> calls the PDF handler when a downloaded file
  ends in \<open>.pdf\<close>, else the data-analysis handler on the first file when one ends in
  \<open>.csv\<close> or \<open>.json\<close>, else the general handler. Only the data-analysis handler converts:
  its answer is \<open>parse_number\<close> of the model's non-empty reply, which, on the reply
  stripped and with its commas removed, is the integer when the text has no \<open>.\<close> and
  \<open>int\<close> accepts it, the float when it has a \<open>.\<close> and \<open>float\<close> accepts it, and the stripped
  reply as text otherwise. The general and the PDF handler return the reply as text,
  whatever it is. \<open>solve_single_quiz\<close> hands the answer of \<open>solve_task\<close> to
  \<open>submit_answer\<close>, which puts it into the payload it posts, unchanged.
\<close>

theorem numeric_reply_conversion:
  "(DataAnalysisHandler_handle env d actx w = (Some a1, w1) \<longrightarrow>
      (\<exists>messages reply. chat_completions_create env messages w = (Some reply, w1)
          \<and> reply \<noteq> [] \<and> a1 = parse_number env reply))
   \<and> (CHR ''.'' \<notin> set (remove_commas (strip r))
        \<and> py_int (int_max_str_digits env) (remove_commas (strip r)) = Some n
        \<longrightarrow> parse_number env r = AInt n)
   \<and> (CHR ''.'' \<in> set (remove_commas (strip r)) \<and> py_float env (remove_commas (strip r)) = Some f
        \<longrightarrow> parse_number env r = AFloat f)
   \<and> (CHR ''.'' \<notin> set (remove_commas (strip r))
        \<and> py_int (int_max_str_digits env) (remove_commas (strip r)) = None
        \<longrightarrow> parse_number env r = AStr (strip r))
   \<and> (CHR ''.'' \<in> set (remove_commas (strip r)) \<and> py_float env (remove_commas (strip r)) = None
        \<longrightarrow> parse_number env r = AStr (strip r))
   \<and> (GeneralTaskHandler_handle env d gctx w = (Some a2, w2) \<longrightarrow>
        (\<exists>messages reply. chat_completions_create env messages w = (Some reply, w2)
            \<and> a2 = AStr reply))
   \<and> (PDFProcessingHandler_handle env d pctx w = (Some a3, w3) \<longrightarrow>
        (\<exists>messages reply. chat_completions_create env messages w = (Some reply, w3)
            \<and> a3 = AStr reply))
   \<and> (get_payload_size env \<lparr>payload_email = email, payload_secret = secret,
            payload_url = quiz_url, payload_answer = ans\<rparr> = Some k
        \<and> int k \<le> max_payload_size st \<longrightarrow>
        submit_answer env st target email secret quiz_url ans w
          = (case httpx_post env target \<lparr>payload_email = email, payload_secret = secret,
                    payload_url = quiz_url, payload_answer = ans\<rparr> w of
               (None, w4) \<Rightarrow> (None, w4)
             | (Some response, w4) \<Rightarrow>
                 if status_code response = 200
                 then (parse_SubmitResponse env (body response), w4)
                 else (None, w4)))
   \<and> (fetch_quiz_page env quiz_url w = (Some qd, v1)
        \<and> parse_quiz_task env qd v1 = (Some ti, v2)
        \<and> solve_task env ti v2 = (Some ans, v3)
        \<and> submit_url ti = Some target \<and> target \<noteq> [] \<longrightarrow>
        solve_single_quiz env st quiz_url email secret time_remaining w
          = (case submit_answer env st target email secret quiz_url ans v3 of
               (None, w4) \<Rightarrow> (None, w4)
             | (Some response, w4) \<Rightarrow> (url response, w4)))
   \<and> (download_all env (file_urls ti) w = (files, w') \<longrightarrow>
        (\<forall>pdf_file. find (\<lambda>f. endswith f ''.pdf'') files = Some pdf_file \<longrightarrow>
           solve_task env ti w
             = PDFProcessingHandler_handle env (task_description ti)
                 \<lparr>pdf_path = Some pdf_file,
                  page_number = map_option (\<lambda>ds. int (digits_to_nat ds))
                                  (re_search_page (raw_content ti))\<rparr> w')
        \<and> (\<forall>data_file fs. files = data_file # fs
              \<and> \<not> list_ex (\<lambda>f. endswith f ''.pdf'') files
              \<and> list_ex (\<lambda>f. endswith f ''.csv'' \<or> endswith f ''.json'') files \<longrightarrow>
           solve_task env ti w
             = DataAnalysisHandler_handle env (task_description ti)
                 \<lparr>data = Some data_file,
                  data_type = Some (if endswith data_file ''.csv'' then ''csv'' else ''json'')\<rparr>
                 w')
        \<and> (\<not> list_ex (\<lambda>f. endswith f ''.pdf'') files
              \<and> \<not> list_ex (\<lambda>f. endswith f ''.csv'' \<or> endswith f ''.json'') files \<longrightarrow>
           solve_task env ti w
             = GeneralTaskHandler_handle env (task_description ti)
                 \<lparr>ctx_task = task_description ti, ctx_content = raw_content ti,
                  ctx_files = files\<rparr> w'))"
proof -
  have c1: "DataAnalysisHandler_handle env d actx w = (Some a1, w1) \<longrightarrow>
      (\<exists>messages reply. chat_completions_create env messages w = (Some reply, w1)
          \<and> reply \<noteq> [] \<and> a1 = parse_number env reply)"
    using DataAnalysisHandler_reply [of env d actx w a1 w1] by blast
  have c6: "GeneralTaskHandler_handle env d gctx w = (Some a2, w2) \<longrightarrow>
        (\<exists>messages reply. chat_completions_create env messages w = (Some reply, w2)
            \<and> a2 = AStr reply)"
    using GeneralTaskHandler_reply [of env d gctx w a2 w2] by blast
  have c7: "PDFProcessingHandler_handle env d pctx w = (Some a3, w3) \<longrightarrow>
        (\<exists>messages reply. chat_completions_create env messages w = (Some reply, w3)
            \<and> a3 = AStr reply)"
    using PDFProcessingHandler_reply [of env d pctx w a3 w3] by blast
  have c8: "get_payload_size env \<lparr>payload_email = email, payload_secret = secret,
            payload_url = quiz_url, payload_answer = ans\<rparr> = Some k
        \<and> int k \<le> max_payload_size st \<longrightarrow>
        submit_answer env st target email secret quiz_url ans w
          = (case httpx_post env target \<lparr>payload_email = email, payload_secret = secret,
                    payload_url = quiz_url, payload_answer = ans\<rparr> w of
               (None, w4) \<Rightarrow> (None, w4)
             | (Some response, w4) \<Rightarrow>
                 if status_code response = 200
                 then (parse_SubmitResponse env (body response), w4)
                 else (None, w4))"
    using submit_answer_posts [of env email secret quiz_url ans k st target w] by blast
  have c9: "fetch_quiz_page env quiz_url w = (Some qd, v1)
        \<and> parse_quiz_task env qd v1 = (Some ti, v2)
        \<and> solve_task env ti v2 = (Some ans, v3)
        \<and> submit_url ti = Some target \<and> target \<noteq> [] \<longrightarrow>
        solve_single_quiz env st quiz_url email secret time_remaining w
          = (case submit_answer env st target email secret quiz_url ans v3 of
               (None, w4) \<Rightarrow> (None, w4)
             | (Some response, w4) \<Rightarrow> (url response, w4))"
    using single_submits_answer [of env quiz_url w qd v1 ti v2 ans v3 target st email secret
            time_remaining]
    by blast
  have c10: "download_all env (file_urls ti) w = (files, w') \<longrightarrow>
        (\<forall>pdf_file. find (\<lambda>f. endswith f ''.pdf'') files = Some pdf_file \<longrightarrow>
           solve_task env ti w
             = PDFProcessingHandler_handle env (task_description ti)
                 \<lparr>pdf_path = Some pdf_file,
                  page_number = map_option (\<lambda>ds. int (digits_to_nat ds))
                                  (re_search_page (raw_content ti))\<rparr> w')
        \<and> (\<forall>data_file fs. files = data_file # fs
              \<and> \<not> list_ex (\<lambda>f. endswith f ''.pdf'') files
              \<and> list_ex (\<lambda>f. endswith f ''.csv'' \<or> endswith f ''.json'') files \<longrightarrow>
           solve_task env ti w
             = DataAnalysisHandler_handle env (task_description ti)
                 \<lparr>data = Some data_file,
                  data_type = Some (if endswith data_file ''.csv'' then ''csv'' else ''json'')\<rparr>
                 w')
        \<and> (\<not> list_ex (\<lambda>f. endswith f ''.pdf'') files
              \<and> \<not> list_ex (\<lambda>f. endswith f ''.csv'' \<or> endswith f ''.json'') files \<longrightarrow>
           solve_task env ti w
             = GeneralTaskHandler_handle env (task_description ti)
                 \<lparr>ctx_task = task_description ti, ctx_content = raw_content ti,
                  ctx_files = files\<rparr> w')"
  proof (intro impI conjI allI)
    fix pdf_file
    assume "download_all env (file_urls ti) w = (files, w')"
      and "find (\<lambda>f. endswith f ''.pdf'') files = Some pdf_file"
    then show "solve_task env ti w
             = PDFProcessingHandler_handle env (task_description ti)
                 \<lparr>pdf_path = Some pdf_file,
                  page_number = map_option (\<lambda>ds. int (digits_to_nat ds))
                                  (re_search_page (raw_content ti))\<rparr> w'"
      by (rule solve_task_pdf)
  next
    fix data_file fs
    assume "download_all env (file_urls ti) w = (files, w')"
      and "files = data_file # fs
              \<and> \<not> list_ex (\<lambda>f. endswith f ''.pdf'') files
              \<and> list_ex (\<lambda>f. endswith f ''.csv'' \<or> endswith f ''.json'') files"
    then show "solve_task env ti w
             = DataAnalysisHandler_handle env (task_description ti)
                 \<lparr>data = Some data_file,
                  data_type = Some (if endswith data_file ''.csv'' then ''csv'' else ''json'')\<rparr>
                 w'"
      using solve_task_data [of env ti w data_file fs w'] by blast
  next
    assume "download_all env (file_urls ti) w = (files, w')"
      and "\<not> list_ex (\<lambda>f. endswith f ''.pdf'') files
              \<and> \<not> list_ex (\<lambda>f. endswith f ''.csv'' \<or> endswith f ''.json'') files"
    then show "solve_task env ti w
             = GeneralTaskHandler_handle env (task_description ti)
                 \<lparr>ctx_task = task_description ti, ctx_content = raw_content ti,
                  ctx_files = files\<rparr> w'"
      using solve_task_general [of env ti w files w'] by blast
  qed
  note pn = parse_number_cases [of r env n f]
  note p2 = pn [THEN conjunct1]
  note p3 = pn [THEN conjunct2, THEN conjunct1]
  note p4 = pn [THEN conjunct2, THEN conjunct2, THEN conjunct1]
  note p5 = pn [THEN conjunct2, THEN conjunct2, THEN conjunct2]
  show ?thesis
    by (intro conjI) (rule c1 p2 p3 p4 p5 c6 c7 c8 c9 c10)+
qed

text \<open>Runs of the data-analysis path and of the variants that log the kind of the answer.\<close>

lemma demo_tag_fields:
  "int_max_str_digits demo_tag_env = 4300"
  "json_dumps demo_tag_env = (\<lambda>p. Some ''{}'')"
  "httpx_post demo_tag_env = demo_tag_post"
  "parse_SubmitResponse demo_tag_env = demo_verdict"
  by (simp_all add: demo_tag_env_def demo_env_def)

lemma demo_csv_fields:
  "time_time demo_csv_env = fst"
  "browser_start demo_csv_env = (\<lambda>w. (True, w))"
  "browser_close demo_csv_env = (\<lambda>w. w)"
  "browser_navigate_to demo_csv_env = (\<lambda>u w. (True, (fst w + 2, snd w @ [''GET '' @ u])))"
  "browser_extract_quiz_instructions demo_csv_env = (\<lambda>w. (Some demo_content, w))"
  "browser_get_page_content demo_csv_env = (\<lambda>w. (''<html></html>'', w))"
  "browser_download_file demo_csv_env = (\<lambda>u f w. (True, (fst w + 1, snd w @ [''GET '' @ u])))"
  "mkdir demo_csv_env = (\<lambda>d w. (True, w))"
  "BeautifulSoup demo_csv_env
     = (\<lambda>c. Some \<lparr>get_text = c, find_all_a_href = [''https://x/data.csv'']\<rparr>)"
  "chat_completions_create demo_csv_env = (\<lambda>messages w. (Some ''5'', w))"
  "path_exists demo_csv_env = (\<lambda>f w. True)"
  "read_csv_file demo_csv_env = (\<lambda>f w. Some ''n'')"
  "py_float demo_csv_env
     = (\<lambda>t. if t = ''2.5'' then Some 2.5 else if t = ''1e5'' then Some 100000 else None)"
  "int_max_str_digits demo_csv_env = 4300"
  "json_dumps demo_csv_env = (\<lambda>p. Some ''{}'')"
  "httpx_post demo_csv_env = demo_tag_post"
  "parse_SubmitResponse demo_csv_env = demo_verdict"
  by (simp_all add: demo_csv_env_def demo_tag_env_def demo_env_def)

lemma demo_1e5_fields:
  "time_time demo_1e5_env = fst"
  "browser_start demo_1e5_env = (\<lambda>w. (True, w))"
  "browser_close demo_1e5_env = (\<lambda>w. w)"
  "browser_navigate_to demo_1e5_env = (\<lambda>u w. (True, (fst w + 2, snd w @ [''GET '' @ u])))"
  "browser_extract_quiz_instructions demo_1e5_env = (\<lambda>w. (Some demo_content, w))"
  "browser_get_page_content demo_1e5_env = (\<lambda>w. (''<html></html>'', w))"
  "browser_download_file demo_1e5_env = (\<lambda>u f w. (True, (fst w + 1, snd w @ [''GET '' @ u])))"
  "mkdir demo_1e5_env = (\<lambda>d w. (True, w))"
  "BeautifulSoup demo_1e5_env
     = (\<lambda>c. Some \<lparr>get_text = c, find_all_a_href = [''https://x/data.csv'']\<rparr>)"
  "chat_completions_create demo_1e5_env = (\<lambda>messages w. (Some ''1e5'', w))"
  "path_exists demo_1e5_env = (\<lambda>f w. True)"
  "read_csv_file demo_1e5_env = (\<lambda>f w. Some ''n'')"
  "py_float demo_1e5_env
     = (\<lambda>t. if t = ''2.5'' then Some 2.5 else if t = ''1e5'' then Some 100000 else None)"
  "int_max_str_digits demo_1e5_env = 4300"
  "json_dumps demo_1e5_env = (\<lambda>p. Some ''{}'')"
  "httpx_post demo_1e5_env = demo_tag_post"
  "parse_SubmitResponse demo_1e5_env = demo_verdict"
  by (simp_all add: demo_1e5_env_def demo_csv_env_def demo_tag_env_def demo_env_def)

lemma clean_5: "remove_commas (strip ''5'') = ''5''"
  by (simp add: strip_def remove_commas_def is_space_def)

lemma clean_25: "remove_commas (strip '' 2.5 '') = ''2.5''"
  by (simp add: strip_def remove_commas_def is_space_def)

lemma clean_five: "remove_commas (strip ''five'') = ''five''"
  by (simp add: strip_def remove_commas_def is_space_def)

lemma clean_123: "remove_commas (strip ''1.2.3'') = ''1.2.3''"
  by (simp add: strip_def remove_commas_def is_space_def)

lemma clean_1e5: "remove_commas (strip ''1e5'') = ''1e5''"
  by (simp add: strip_def remove_commas_def is_space_def)

lemma int_5: "py_int 4300 ''5'' = Some 5"
  by (simp add: py_int_def int_strip_def is_int_space_def int_digits_def is_digit_def
        digit_val_def Let_def)

lemma int_five: "py_int 4300 ''five'' = None"
  by (simp add: py_int_def int_strip_def is_int_space_def int_digits_def is_digit_def Let_def)

lemma int_1e5: "py_int 4300 ''1e5'' = None"
  by (simp add: py_int_def int_strip_def is_int_space_def int_digits_def is_digit_def Let_def)

text \<open>\<open>int\<close> does not drop the separator 0x1F, which \<open>str.strip()\<close> drops; it drops the
  no-break space; and it refuses 4301 digits.\<close>

lemma int_separator: "py_int 4300 ([CHR 0x1F] @ ''5'') = None"
  by (simp add: py_int_def int_strip_def is_int_space_def int_digits_def is_digit_def Let_def)

lemma int_no_break_space: "py_int 4300 ([CHR 0xA0] @ ''5'') = Some 5"
  by (simp add: py_int_def int_strip_def is_int_space_def int_digits_def is_digit_def
        digit_val_def Let_def)

lemma int_too_long: "py_int 4300 (replicate 4301 (CHR ''1'')) = None"
proof -
  have "filter is_digit (replicate 4301 (CHR ''1'')) = replicate 4301 (CHR ''1'')"
    by (simp only: filter_replicate) (simp add: is_digit_def)
  moreover have "int_strip (replicate 4301 (CHR ''1'')) = replicate 4301 (CHR ''1'')"
  proof -
    have n: "\<not> is_int_space (CHR ''1'')" by (simp add: is_int_space_def)
    have d: "dropWhile is_int_space (replicate k (CHR ''1'')) = replicate k (CHR ''1'')" for k
      using n by (cases k) simp_all
    show ?thesis unfolding int_strip_def d rev_replicate d ..
  qed
  moreover have "length (replicate 4301 (CHR ''1'')) = 4301" by (simp only: length_replicate)
  ultimately show ?thesis
    unfolding py_int_def Let_def by (simp only:) simp
qed

lemma demo_parse_5: "parse_number demo_env ''5'' = AInt 5"
  unfolding parse_number_def Let_def clean_5
  by (simp add: int_5 demo_fields)

lemma demo_analysis:
  "DataAnalysisHandler_handle demo_env d
       \<lparr>data = Some ''downloads/data.csv'', data_type = Some ''csv''\<rparr> w
     = (Some (AInt 5), w)"
  by (simp add: DataAnalysisHandler_handle_def analysis_data_str_def solve_math_problem_def
        demo_analyze demo_fields demo_parse_5)

lemma demo_pdf:
  "PDFProcessingHandler_handle demo_env d
       \<lparr>pdf_path = Some ''downloads/report.pdf'', page_number = None\<rparr> w
     = (Some (AStr ''5''), w)"
  by (simp add: PDFProcessingHandler_handle_def demo_analyze demo_fields pdf_extract_text_def)

lemma demo_download:
  "download_file demo_env u w
     = (Some (download_path (download_filename u)), (fst w + 1, snd w @ [''GET '' @ u]))"
  by (simp add: download_file_def demo_fields Let_def)

lemma demo_data_path:
  "download_path (download_filename ''https://x/data.csv'') = ''downloads/data.csv''"
  by (simp add: download_path_def download_filename_def)

lemma demo_report_path:
  "download_path (download_filename ''https://x/report.pdf'') = ''downloads/report.pdf''"
  by (simp add: download_path_def download_filename_def)

lemma demo_download_data:
  "download_all demo_env [''https://x/data.csv''] w
     = ([''downloads/data.csv''], (fst w + 1, snd w @ [''GET https://x/data.csv'']))"
  by (simp add: demo_download demo_data_path)

lemma demo_download_report:
  "download_all demo_env [''https://x/report.pdf''] w
     = ([''downloads/report.pdf''], (fst w + 1, snd w @ [''GET https://x/report.pdf'']))"
  by (simp add: demo_download demo_report_path)

lemma page_read_it: "re_search_page ''read it'' = None"
  by (simp add: page_match_here_def page_word_def)

lemma demo_csv_fetch:
  "fetch_quiz_page demo_csv_env u w
     = (Some \<lparr>content = demo_content, html = ''<html></html>'', page_url = u\<rparr>,
        (fst w + 2, snd w @ [''GET '' @ u]))"
  by (simp add: fetch_quiz_page_def demo_csv_fields demo_content_def)

lemma demo_csv_parse:
  "parse_quiz_task demo_csv_env \<lparr>content = demo_content, html = h, page_url = u\<rparr> w
     = (Some \<lparr>task_description = ''5'', raw_content = demo_content,
              submit_url = Some ''https://x/submit'',
              file_urls = [''https://x/data.csv''], task_html = h\<rparr>, w)"
  by (simp add: parse_quiz_task_def analyze_text_def demo_csv_fields demo_search
        has_data_extension_def data_extensions_def startswith_def Let_def)

lemma demo_csv_download:
  "download_all demo_csv_env [''https://x/data.csv''] w
     = ([''downloads/data.csv''], (fst w + 1, snd w @ [''GET https://x/data.csv'']))"
  by (simp add: download_file_def demo_csv_fields demo_data_path Let_def)

lemma demo_csv_number: "parse_number demo_csv_env ''5'' = AInt 5"
  unfolding parse_number_def Let_def clean_5
  by (simp add: demo_csv_fields int_5)

lemma demo_csv_analysis:
  "DataAnalysisHandler_handle demo_csv_env d
       \<lparr>data = Some ''downloads/data.csv'', data_type = Some ''csv''\<rparr> w
     = (Some (AInt 5), w)"
  by (simp add: DataAnalysisHandler_handle_def analysis_data_str_def solve_math_problem_def
        analyze_text_def demo_csv_fields demo_csv_number)

lemma demo_csv_solve:
  "solve_task demo_csv_env \<lparr>task_description = d, raw_content = r, submit_url = su,
       file_urls = [''https://x/data.csv''], task_html = h\<rparr> w
     = (Some (AInt 5), (fst w + 1, snd w @ [''GET https://x/data.csv'']))"
  by (simp add: solve_task_def solve_task_with_files_def demo_csv_download demo_csv_analysis
        endswith_def del: download_all.simps)

lemma demo_tag_submit:
  "submit_answer demo_csv_env default_settings target e s q a w
     = (demo_verdict (if q = ''https://x/q1'' then ''next'' else ''done''),
        (fst w + 1, snd w @ [''POST '' @ target @ '' '' @ demo_answer_tag a]))"
  by (simp add: submit_answer_def get_payload_size_def utf8_len_def demo_csv_fields
        demo_tag_post_def default_settings_def Let_def)

lemma demo_1e5_fetch:
  "fetch_quiz_page demo_1e5_env u w
     = (Some \<lparr>content = demo_content, html = ''<html></html>'', page_url = u\<rparr>,
        (fst w + 2, snd w @ [''GET '' @ u]))"
  by (simp add: fetch_quiz_page_def demo_1e5_fields demo_content_def)

lemma demo_1e5_parse:
  "parse_quiz_task demo_1e5_env \<lparr>content = demo_content, html = h, page_url = u\<rparr> w
     = (Some \<lparr>task_description = ''1e5'', raw_content = demo_content,
              submit_url = Some ''https://x/submit'',
              file_urls = [''https://x/data.csv''], task_html = h\<rparr>, w)"
  by (simp add: parse_quiz_task_def analyze_text_def demo_1e5_fields demo_search
        has_data_extension_def data_extensions_def startswith_def Let_def)

lemma demo_1e5_download:
  "download_all demo_1e5_env [''https://x/data.csv''] w
     = ([''downloads/data.csv''], (fst w + 1, snd w @ [''GET https://x/data.csv'']))"
  by (simp add: download_file_def demo_1e5_fields demo_data_path Let_def)

lemma strip_1e5: "strip ''1e5'' = ''1e5''"
  by (simp add: strip_def is_space_def)

lemma demo_1e5_number: "parse_number demo_1e5_env ''1e5'' = AStr ''1e5''"
  unfolding parse_number_def Let_def clean_1e5
  by (simp add: demo_1e5_fields int_1e5 strip_1e5)

lemma demo_1e5_analysis:
  "DataAnalysisHandler_handle demo_1e5_env d
       \<lparr>data = Some ''downloads/data.csv'', data_type = Some ''csv''\<rparr> w
     = (Some (AStr ''1e5''), w)"
  by (simp add: DataAnalysisHandler_handle_def analysis_data_str_def solve_math_problem_def
        analyze_text_def demo_1e5_fields demo_1e5_number)

lemma demo_1e5_solve:
  "solve_task demo_1e5_env \<lparr>task_description = d, raw_content = r, submit_url = su,
       file_urls = [''https://x/data.csv''], task_html = h\<rparr> w
     = (Some (AStr ''1e5''), (fst w + 1, snd w @ [''GET https://x/data.csv'']))"
  by (simp add: solve_task_def solve_task_with_files_def demo_1e5_download demo_1e5_analysis
        endswith_def del: download_all.simps)

lemma demo_1e5_submit:
  "submit_answer demo_1e5_env default_settings target e s q a w
     = (demo_verdict (if q = ''https://x/q1'' then ''next'' else ''done''),
        (fst w + 1, snd w @ [''POST '' @ target @ '' '' @ demo_answer_tag a]))"
  by (simp add: submit_answer_def get_payload_size_def utf8_len_def demo_1e5_fields
        demo_tag_post_def default_settings_def Let_def)

lemma demo_tag_single:
  "solve_single_quiz demo_tag_env default_settings ''https://x/q1'' e s r (0, [])
     = (Some ''https://x/q2'', (3, [''GET https://x/q1'', ''POST https://x/submit str 5'']))"
  by (simp add: solve_single_quiz_def demo_tag_env_def post_free_fetch post_free_parse
        post_free_solve demo_fetch demo_parse demo_solve submit_answer_def
        get_payload_size_def utf8_len_def demo_fields demo_tag_post_def demo_answer_tag_def
        demo_verdict_def default_settings_def Let_def)

lemma demo_1e5_single:
  "solve_single_quiz demo_1e5_env default_settings ''https://x/q1'' e s r (0, [])
     = (Some ''https://x/q2'',
        (4, [''GET https://x/q1'', ''GET https://x/data.csv'',
             ''POST https://x/submit str 1e5'']))"
  by (simp add: solve_single_quiz_def demo_1e5_fetch demo_1e5_parse demo_1e5_solve
        demo_1e5_submit demo_answer_tag_def demo_verdict_def)

theorem numeric_reply_conversion_witness:
  "DataAnalysisHandler_handle demo_env ''q''
       \<lparr>data = Some ''downloads/data.csv'', data_type = Some ''csv''\<rparr> (0, [])
     = (Some (AInt 5), (0, []))
   \<and> (\<exists>messages reply. chat_completions_create demo_env messages (0, []) = (Some reply, (0, []))
          \<and> reply \<noteq> [] \<and> AInt 5 = parse_number demo_env reply)
   \<and> parse_number demo_env ''5'' = AInt 5
   \<and> parse_number demo_env '' 2.5 '' = AFloat 2.5
   \<and> parse_number demo_env ''five'' = AStr ''five''
   \<and> parse_number demo_env ''1.2.3'' = AStr ''1.2.3''
   \<and> GeneralTaskHandler_handle demo_env ''q''
        \<lparr>ctx_task = ''q'', ctx_content = ''What is 2+3?'', ctx_files = []\<rparr> (0, [])
       = (Some (AStr ''5''), (0, []))
   \<and> (\<exists>messages reply. chat_completions_create demo_env messages (0, []) = (Some reply, (0, []))
          \<and> AStr ''5'' = AStr reply)
   \<and> PDFProcessingHandler_handle demo_env ''q''
        \<lparr>pdf_path = Some ''downloads/report.pdf'', page_number = None\<rparr> (0, [])
       = (Some (AStr ''5''), (0, []))
   \<and> get_payload_size demo_csv_env \<lparr>payload_email = ''a@b.c'', payload_secret = ''s'',
          payload_url = ''https://x/q1'', payload_answer = AInt 5\<rparr> = Some 2
   \<and> int 2 \<le> max_payload_size default_settings
   \<and> submit_answer demo_csv_env default_settings ''https://x/submit'' ''a@b.c'' ''s''
        ''https://x/q1'' (AInt 5) (3, [''GET https://x/q1'', ''GET https://x/data.csv''])
       = (Some \<lparr>correct = True, url = Some ''https://x/q2'', reason = None\<rparr>,
          (4, [''GET https://x/q1'', ''GET https://x/data.csv'', ''POST https://x/submit int'']))
   \<and> solve_single_quiz demo_csv_env default_settings ''https://x/q1'' ''a@b.c'' ''s'' 180 (0, [])
       = (Some ''https://x/q2'',
          (4, [''GET https://x/q1'', ''GET https://x/data.csv'', ''POST https://x/submit int'']))
   \<and> solve_task demo_env
        \<lparr>task_description = ''q'', raw_content = ''read it'', submit_url = None,
         file_urls = [''https://x/report.pdf''], task_html = []\<rparr> (0, [])
       = (Some (AStr ''5''), (1, [''GET https://x/report.pdf'']))
   \<and> solve_task demo_env
        \<lparr>task_description = ''q'', raw_content = ''read it'', submit_url = None,
         file_urls = [''https://x/data.csv''], task_html = []\<rparr> (0, [])
       = (Some (AInt 5), (1, [''GET https://x/data.csv'']))
   \<and> solve_task demo_env
        \<lparr>task_description = ''q'', raw_content = ''What is 2+3?'', submit_url = None,
         file_urls = [], task_html = []\<rparr> (0, [])
       = (Some (AStr ''5''), (0, []))"
proof -
  let ?log = "[''GET https://x/q1'', ''GET https://x/data.csv'']"
  let ?qd = "\<lparr>content = demo_content, html = ''<html></html>'', page_url = ''https://x/q1''\<rparr>"
  let ?ti = "\<lparr>task_description = ''5'', raw_content = demo_content,
              submit_url = Some ''https://x/submit'',
              file_urls = [''https://x/data.csv''], task_html = ''<html></html>''\<rparr>"
  let ?pdf_task = "\<lparr>task_description = ''q'', raw_content = ''read it'', submit_url = None,
         file_urls = [''https://x/report.pdf''], task_html = []\<rparr>"
  let ?csv_task = "\<lparr>task_description = ''q'', raw_content = ''read it'', submit_url = None,
         file_urls = [''https://x/data.csv''], task_html = []\<rparr>"
  let ?plain_task = "\<lparr>task_description = ''q'', raw_content = ''What is 2+3?'',
         submit_url = None, file_urls = [], task_html = []\<rparr>"
  have h1: "DataAnalysisHandler_handle demo_env ''q''
       \<lparr>data = Some ''downloads/data.csv'', data_type = Some ''csv''\<rparr> (0, [])
     = (Some (AInt 5), (0, []))"
    by (rule demo_analysis)
  have h4: "GeneralTaskHandler_handle demo_env ''q''
        \<lparr>ctx_task = ''q'', ctx_content = ''What is 2+3?'', ctx_files = []\<rparr> (0, [])
       = (Some (AStr ''5''), (0, []))"
    by (rule demo_general)
  have h5: "PDFProcessingHandler_handle demo_env ''q''
        \<lparr>pdf_path = Some ''downloads/report.pdf'', page_number = None\<rparr> (0, [])
       = (Some (AStr ''5''), (0, []))"
    by (rule demo_pdf)
  note T = numeric_reply_conversion
         [where env = demo_env and d = "''q''" and w = "(0, [])"
            and actx = "\<lparr>data = Some ''downloads/data.csv'', data_type = Some ''csv''\<rparr>"
            and ?a1.0 = "AInt 5" and ?w1.0 = "(0, [])"
            and gctx = "\<lparr>ctx_task = ''q'', ctx_content = ''What is 2+3?'', ctx_files = []\<rparr>"
            and ?a2.0 = "AStr ''5''" and ?w2.0 = "(0, [])"
            and pctx = "\<lparr>pdf_path = Some ''downloads/report.pdf'', page_number = None\<rparr>"
            and ?a3.0 = "AStr ''5''" and ?w3.0 = "(0, [])"]
  from T [THEN conjunct1, THEN mp, OF h1]
  have g1: "\<exists>messages reply.
        chat_completions_create demo_env messages (0, []) = (Some reply, (0, []))
          \<and> reply \<noteq> [] \<and> AInt 5 = parse_number demo_env reply" .
  from T [THEN conjunct2, THEN conjunct2, THEN conjunct2, THEN conjunct2, THEN conjunct2,
          THEN conjunct1, THEN mp, OF h4]
  have g4: "\<exists>messages reply.
        chat_completions_create demo_env messages (0, []) = (Some reply, (0, []))
          \<and> AStr ''5'' = AStr reply" .
  have i1: "CHR ''.'' \<notin> set (remove_commas (strip ''5''))
            \<and> py_int (int_max_str_digits demo_env) (remove_commas (strip ''5'')) = Some 5"
    unfolding clean_5 by (simp add: demo_fields int_5)
  from numeric_reply_conversion [where env = demo_env and r = "''5''" and n = 5,
         THEN conjunct2, THEN conjunct1, THEN mp, OF i1]
  have i2: "parse_number demo_env ''5'' = AInt 5" .
  have f1: "CHR ''.'' \<in> set (remove_commas (strip '' 2.5 ''))
            \<and> py_float demo_env (remove_commas (strip '' 2.5 '')) = Some 2.5"
    unfolding clean_25 by (simp add: demo_fields)
  from numeric_reply_conversion [where env = demo_env and r = "'' 2.5 ''" and f = "2.5",
         THEN conjunct2, THEN conjunct2, THEN conjunct1, THEN mp, OF f1]
  have f2: "parse_number demo_env '' 2.5 '' = AFloat 2.5" .
  have s1: "CHR ''.'' \<notin> set (remove_commas (strip ''five''))
            \<and> py_int (int_max_str_digits demo_env) (remove_commas (strip ''five'')) = None"
    unfolding clean_five by (simp add: demo_fields int_five)
  from numeric_reply_conversion [where env = demo_env and r = "''five''",
         THEN conjunct2, THEN conjunct2, THEN conjunct2, THEN conjunct1, THEN mp, OF s1]
  have "parse_number demo_env ''five'' = AStr (strip ''five'')" .
  then have s2: "parse_number demo_env ''five'' = AStr ''five''"
    by (simp add: strip_def is_space_def)
  have t1: "CHR ''.'' \<in> set (remove_commas (strip ''1.2.3''))
            \<and> py_float demo_env (remove_commas (strip ''1.2.3'')) = None"
    unfolding clean_123 by (simp add: demo_fields)
  from numeric_reply_conversion [where env = demo_env and r = "''1.2.3''",
         THEN conjunct2, THEN conjunct2, THEN conjunct2, THEN conjunct2, THEN conjunct1,
         THEN mp, OF t1]
  have "parse_number demo_env ''1.2.3'' = AStr (strip ''1.2.3'')" .
  then have t2: "parse_number demo_env ''1.2.3'' = AStr ''1.2.3''"
    by (simp add: strip_def is_space_def)
  note C = numeric_reply_conversion
         [where env = demo_csv_env and st = default_settings and w = "(0, [])"
            and quiz_url = "''https://x/q1''" and email = "''a@b.c''" and secret = "''s''"
            and ans = "AInt 5" and target = "''https://x/submit''" and k = 2
            and qd = ?qd and ?v1.0 = "(2, [''GET https://x/q1''])"
            and ti = ?ti and ?v2.0 = "(2, [''GET https://x/q1''])"
            and ?v3.0 = "(3, ?log)" and time_remaining = 180,
          THEN conjunct2, THEN conjunct2, THEN conjunct2, THEN conjunct2, THEN conjunct2,
          THEN conjunct2, THEN conjunct2]
  have p1: "get_payload_size demo_csv_env \<lparr>payload_email = ''a@b.c'', payload_secret = ''s'',
          payload_url = ''https://x/q1'', payload_answer = AInt 5\<rparr> = Some 2"
    by (simp add: get_payload_size_def demo_csv_fields utf8_len_def)
  have p2: "int 2 \<le> max_payload_size default_settings"
    by (simp add: default_settings_def)
  have p3: "submit_answer demo_csv_env default_settings ''https://x/submit'' ''a@b.c'' ''s''
        ''https://x/q1'' (AInt 5) (3, ?log)
       = (Some \<lparr>correct = True, url = Some ''https://x/q2'', reason = None\<rparr>,
          (4, [''GET https://x/q1'', ''GET https://x/data.csv'', ''POST https://x/submit int'']))"
    by (simp add: demo_tag_submit demo_verdict_def demo_answer_tag_def)
  have q1: "fetch_quiz_page demo_csv_env ''https://x/q1'' (0, [])
              = (Some ?qd, (2, [''GET https://x/q1'']))
        \<and> parse_quiz_task demo_csv_env ?qd (2, [''GET https://x/q1''])
              = (Some ?ti, (2, [''GET https://x/q1'']))
        \<and> solve_task demo_csv_env ?ti (2, [''GET https://x/q1'']) = (Some (AInt 5), (3, ?log))
        \<and> submit_url ?ti = Some ''https://x/submit'' \<and> ''https://x/submit'' \<noteq> []"
    by (simp add: demo_csv_fetch demo_csv_parse demo_csv_solve)
  from C [THEN conjunct2, THEN conjunct1, THEN mp, OF q1]
  have q2: "solve_single_quiz demo_csv_env default_settings ''https://x/q1'' ''a@b.c'' ''s'' 180
              (0, [])
       = (Some ''https://x/q2'',
          (4, [''GET https://x/q1'', ''GET https://x/data.csv'', ''POST https://x/submit int'']))"
    unfolding p3 by simp
  have d1: "download_all demo_env (file_urls ?pdf_task) (0, [])
              = ([''downloads/report.pdf''], (1, [''GET https://x/report.pdf'']))"
    by (simp add: demo_download_report del: download_all.simps)
  have d1': "find (\<lambda>f. endswith f ''.pdf'') [''downloads/report.pdf'']
               = Some ''downloads/report.pdf''"
    by (simp add: endswith_def)
  from numeric_reply_conversion
         [where env = demo_env and w = "(0, [])" and ti = ?pdf_task,
          THEN conjunct2, THEN conjunct2, THEN conjunct2, THEN conjunct2, THEN conjunct2,
          THEN conjunct2, THEN conjunct2, THEN conjunct2, THEN conjunct2,
          THEN mp, OF d1, THEN conjunct1, rule_format, OF d1']
  have d2: "solve_task demo_env ?pdf_task (0, [])
       = (Some (AStr ''5''), (1, [''GET https://x/report.pdf'']))"
    by (simp add: page_read_it demo_pdf del: re_search_page.simps)
  have e1: "download_all demo_env (file_urls ?csv_task) (0, [])
              = ([''downloads/data.csv''], (1, [''GET https://x/data.csv'']))"
    by (simp add: demo_download_data del: download_all.simps)
  have e1': "[''downloads/data.csv''] = ''downloads/data.csv'' # []
              \<and> \<not> list_ex (\<lambda>f. endswith f ''.pdf'') [''downloads/data.csv'']
              \<and> list_ex (\<lambda>f. endswith f ''.csv'' \<or> endswith f ''.json'')
                   [''downloads/data.csv'']"
    by (simp add: endswith_def)
  from numeric_reply_conversion
         [where env = demo_env and w = "(0, [])" and ti = ?csv_task,
          THEN conjunct2, THEN conjunct2, THEN conjunct2, THEN conjunct2, THEN conjunct2,
          THEN conjunct2, THEN conjunct2, THEN conjunct2, THEN conjunct2,
          THEN mp, OF e1, THEN conjunct2, THEN conjunct1, rule_format, OF e1']
  have e2: "solve_task demo_env ?csv_task (0, [])
       = (Some (AInt 5), (1, [''GET https://x/data.csv'']))"
    by (simp add: endswith_def demo_analysis)
  have g1': "download_all demo_env (file_urls ?plain_task) (0, []) = ([], (0, []))"
    by simp
  have g2': "\<not> list_ex (\<lambda>f. endswith f ''.pdf'') []
              \<and> \<not> list_ex (\<lambda>f. endswith f ''.csv'' \<or> endswith f ''.json'') []"
    by simp
  from numeric_reply_conversion
         [where env = demo_env and w = "(0, [])" and ti = ?plain_task,
          THEN conjunct2, THEN conjunct2, THEN conjunct2, THEN conjunct2, THEN conjunct2,
          THEN conjunct2, THEN conjunct2, THEN conjunct2, THEN conjunct2,
          THEN mp, OF g1', THEN conjunct2, THEN conjunct2, THEN mp, OF g2']
  have g3: "solve_task demo_env ?plain_task (0, []) = (Some (AStr ''5''), (0, []))"
    by (simp add: demo_general)
  from numeric_reply_conversion
         [where env = demo_csv_env and st = default_settings and w = "(3, ?log)"
            and quiz_url = "''https://x/q1''" and email = "''a@b.c''" and secret = "''s''"
            and ans = "AInt 5" and target = "''https://x/submit''" and k = 2,
          THEN conjunct2, THEN conjunct2, THEN conjunct2, THEN conjunct2, THEN conjunct2,
          THEN conjunct2, THEN conjunct2, THEN conjunct1, THEN mp, OF conjI [OF p1 p2]]
  have p4: "submit_answer demo_csv_env default_settings ''https://x/submit'' ''a@b.c'' ''s''
        ''https://x/q1'' (AInt 5) (3, ?log)
       = (Some \<lparr>correct = True, url = Some ''https://x/q2'', reason = None\<rparr>,
          (4, [''GET https://x/q1'', ''GET https://x/data.csv'', ''POST https://x/submit int'']))"
    by (simp add: p3)
  show ?thesis
    by (intro conjI) (rule h1 g1 i2 f2 s2 t2 h4 g4 h5 p1 p2 p4 q2 d2 e2 g3)+
qed

text \<open>
  The claim as the specification states it fails in two ways. A task with no files goes
  to the general handler: the model replies \<open>5\<close>, which \<open>int\<close> accepts, and the payload
  posted carries the text \<open>5\<close>, not the integer. A task with a CSV file goes to the
  data-analysis handler: the model replies \<open>1e5\<close>, which \<open>float\<close> accepts, and since the
  reply has no \<open>.\<close> only \<open>int\<close> is tried, so the payload posted carries the text \<open>1e5\<close>.
\<close>

theorem numeric_reply_posted_as_text:
  "py_int (int_max_str_digits demo_tag_env) ''5'' = Some 5
   \<and> solve_single_quiz demo_tag_env default_settings ''https://x/q1'' ''a@b.c'' ''s'' 180 (0, [])
       = (Some ''https://x/q2'', (3, [''GET https://x/q1'', ''POST https://x/submit str 5'']))
   \<and> py_float demo_1e5_env ''1e5'' = Some 100000
   \<and> solve_single_quiz demo_1e5_env default_settings ''https://x/q1'' ''a@b.c'' ''s'' 180 (0, [])
       = (Some ''https://x/q2'',
          (4, [''GET https://x/q1'', ''GET https://x/data.csv'',
               ''POST https://x/submit str 1e5'']))"
  by (simp add: demo_tag_fields int_5 demo_tag_single demo_1e5_fields demo_1e5_single)

end
